theory Spec2Isabelle
  imports Main "HOL-Library.Word" "HOL-Library.Sublist"
begin

section \<open>Cluster objects read by the health-check synchronizer\<close>

text \<open>
  \<^verbatim>\<open>ktypes.NamespacedName{Namespace, Name}\<close>, the key of both tables of
  \<^verbatim>\<open>go-controller/pkg/node/healthcheck_service.go\<close>. Its \<^verbatim>\<open>String()\<close>
  method joins the two parts with a slash.
\<close>

datatype NamespacedName = NamespacedName (nn_Namespace: string) (nn_Name: string)

definition NamespacedName_String :: "NamespacedName \<Rightarrow> string" where
  "NamespacedName_String n = nn_Namespace n @ ''/'' @ nn_Name n"

text \<open>
  The fields of \<^verbatim>\<open>kapi.Service\<close> that the synchronizer reads.
  \<^verbatim>\<open>Spec.HealthCheckNodePort\<close> is an \<^verbatim>\<open>int32\<close>;
  \<^verbatim>\<open>Spec.ExternalTrafficPolicy\<close> is a string type with the two named values below.
\<close>

record Service =
  svc_Namespace :: string
  svc_Name :: string
  ExternalTrafficPolicy :: string
  HealthCheckNodePort :: "32 word"

definition ServiceExternalTrafficPolicyTypeCluster :: string where
  "ServiceExternalTrafficPolicyTypeCluster = ''Cluster''"

definition ServiceExternalTrafficPolicyTypeLocal :: string where
  "ServiceExternalTrafficPolicyTypeLocal = ''Local''"

text \<open>
  The fields of \<^verbatim>\<open>discovery.Endpoint\<close> and \<^verbatim>\<open>discovery.EndpointSlice\<close>
  that the synchronizer reads. \<^verbatim>\<open>NodeName\<close> is a \<^verbatim>\<open>*string\<close>, so it may be nil.
\<close>

record Endpoint =
  Addresses :: "string list"
  NodeName :: "string option"
  Ready :: bool
  Serving :: bool
  Terminating :: bool

record EndpointSlice =
  eps_Namespace :: string
  eps_Name :: string
  Labels :: "string \<Rightarrow> string option"
  Endpoints :: "Endpoint list"

definition LabelServiceName :: string where
  "LabelServiceName = ''kubernetes.io/service-name''"

text \<open>Go's map read \<^verbatim>\<open>m[key]\<close>: the zero value (the empty string) for a missing key.\<close>

definition map_index :: "(string \<Rightarrow> string option) \<Rightarrow> string \<Rightarrow> string" where
  "map_index m k = (case m k of None \<Rightarrow> [] | Some v \<Rightarrow> v)"

text \<open>
  Modelled from the spec: \<^verbatim>\<open>util.IsEndpointReady\<close> is called by
  \<^verbatim>\<open>CountLocalReadyEndpointAddresses\<close> but its body is not among the source files.
  The specification says an endpoint counts when its readiness flag is true, and that the
  separate serving and terminating flags play no part.
\<close>

definition IsEndpointReady :: "Endpoint \<Rightarrow> bool" where
  "IsEndpointReady endpoint = Ready endpoint"

text \<open>
  Modelled from the spec: \<^verbatim>\<open>serviceNamespacedNameFromEndpointSlice\<close> is called by
  every endpoint-slice handler but its body is not among the source files. The
  specification says it resolves the owning service's namespaced name from the slice's
  service-name label and that extraction can fail. The name is the slice's namespace with
  the label's value; a slice without a (non-empty) label fails with a message.
\<close>

definition serviceNamespacedNameFromEndpointSlice :: "EndpointSlice \<Rightarrow> string + NamespacedName" where
  "serviceNamespacedNameFromEndpointSlice epSlice =
     (let svcName = map_index (Labels epSlice) LabelServiceName
      in if svcName = []
         then Inl (''endpointslice '' @ eps_Namespace epSlice @ ''/'' @ eps_Name epSlice
                   @ '': empty value for label '' @ LabelServiceName)
         else Inr (NamespacedName (eps_Namespace epSlice) svcName))"

section \<open>Errors\<close>

text \<open>
  A Go \<^verbatim>\<open>error\<close> value is either a single error, identified by its message, or the
  aggregate built by \<^verbatim>\<open>apierrors.NewAggregate\<close>, which keeps the list of the errors
  it was given and is nil for an empty list.
\<close>

datatype error = Errorf string | Aggregate "error list"

definition NewAggregate :: "error list \<Rightarrow> error option" where
  "NewAggregate errlist = (if errlist = [] then None else Some (Aggregate errlist))"

text \<open>\<^verbatim>\<open>if err != nil { errors = append(errors, err) }\<close>\<close>

definition append_err :: "error list \<Rightarrow> error option \<Rightarrow> error list" where
  "append_err errors err = (case err of None \<Rightarrow> errors | Some e \<Rightarrow> errors @ [e])"

section \<open>The synchronizer and its collaborators\<close>

text \<open>
  The Health Server (\<^verbatim>\<open>healthcheck.Server\<close>) and the Object Cache
  (\<^verbatim>\<open>factory.NodeWatchFactory\<close>) are interfaces implemented outside this code: each
  is a record of the methods the synchronizer calls. A push returns nil or an error; a
  fetch returns the slices or the message of its error.
\<close>

record Server =
  SyncServices :: "(NamespacedName \<Rightarrow> 16 word option) \<Rightarrow> error option"
  SyncEndpoints :: "(NamespacedName \<Rightarrow> int option) \<Rightarrow> error option"

record NodeWatchFactory =
  GetEndpointSlices :: "string \<Rightarrow> string \<Rightarrow> string + EndpointSlice list"

text \<open>
  What an operation does that is visible from outside its return value and the two
  tables: taking and releasing the mutex, reading and writing a table, and calling a
  collaborator (with the table pushed, or the arguments of the fetch).
\<close>

datatype event =
    Lock
  | Unlock
  | ServicesRead NamespacedName
  | ServicesWrite NamespacedName "16 word"
  | ServicesDelete NamespacedName
  | EndpointsWrite NamespacedName int
  | EndpointsDelete NamespacedName
  | CallSyncServices "NamespacedName \<Rightarrow> 16 word option"
  | CallSyncEndpoints "NamespacedName \<Rightarrow> int option"
  | CallGetEndpointSlices string string

text \<open>
  \<^verbatim>\<open>type loadBalancerHealthChecker struct\<close>. The embedded \<^verbatim>\<open>sync.Mutex\<close> is
  observed through the \<open>Lock\<close> and \<open>Unlock\<close> events of \<open>trace\<close>, which records the
  events of all operations so far, oldest first. The endpoint count is a Go \<^verbatim>\<open>int\<close>
  holding the length of a set, kept as an unbounded integer.
\<close>

record loadBalancerHealthChecker =
  nodeName :: string
  server :: Server
  services :: "NamespacedName \<Rightarrow> 16 word option"
  endpoints :: "NamespacedName \<Rightarrow> int option"
  watchFactory :: NodeWatchFactory
  trace :: "event list"

type_synonym 'a step = "loadBalancerHealthChecker \<Rightarrow> 'a \<times> loadBalancerHealthChecker"

definition emit :: "event \<Rightarrow> loadBalancerHealthChecker \<Rightarrow> loadBalancerHealthChecker" where
  "emit e l = l\<lparr>trace := trace l @ [e]\<rparr>"

definition mutex_Lock :: "loadBalancerHealthChecker \<Rightarrow> loadBalancerHealthChecker" where
  "mutex_Lock l = emit Lock l"

definition mutex_Unlock :: "loadBalancerHealthChecker \<Rightarrow> loadBalancerHealthChecker" where
  "mutex_Unlock l = emit Unlock l"

text \<open>\<^verbatim>\<open>l.services[name] = port\<close>, \<^verbatim>\<open>delete(l.services, name)\<close>,
  \<^verbatim>\<open>_, exists := l.services[name]\<close>\<close>

definition services_write :: "NamespacedName \<Rightarrow> 16 word \<Rightarrow> loadBalancerHealthChecker \<Rightarrow> loadBalancerHealthChecker" where
  "services_write name port l = emit (ServicesWrite name port) (l\<lparr>services := (services l)(name \<mapsto> port)\<rparr>)"

definition services_delete :: "NamespacedName \<Rightarrow> loadBalancerHealthChecker \<Rightarrow> loadBalancerHealthChecker" where
  "services_delete name l = emit (ServicesDelete name) (l\<lparr>services := (services l)(name := None)\<rparr>)"

definition services_exists :: "NamespacedName \<Rightarrow> bool step" where
  "services_exists name l = (services l name \<noteq> None, emit (ServicesRead name) l)"

text \<open>\<^verbatim>\<open>l.endpoints[name] = count\<close>, \<^verbatim>\<open>delete(l.endpoints, name)\<close>\<close>

definition endpoints_write :: "NamespacedName \<Rightarrow> int \<Rightarrow> loadBalancerHealthChecker \<Rightarrow> loadBalancerHealthChecker" where
  "endpoints_write name n l = emit (EndpointsWrite name n) (l\<lparr>endpoints := (endpoints l)(name \<mapsto> n)\<rparr>)"

definition endpoints_delete :: "NamespacedName \<Rightarrow> loadBalancerHealthChecker \<Rightarrow> loadBalancerHealthChecker" where
  "endpoints_delete name l = emit (EndpointsDelete name) (l\<lparr>endpoints := (endpoints l)(name := None)\<rparr>)"

text \<open>\<^verbatim>\<open>l.server.SyncServices(l.services)\<close>, \<^verbatim>\<open>l.server.SyncEndpoints(l.endpoints)\<close>,
  \<^verbatim>\<open>l.watchFactory.GetEndpointSlices(namespace, name)\<close>\<close>

definition server_SyncServices :: "error option step" where
  "server_SyncServices l = (SyncServices (server l) (services l), emit (CallSyncServices (services l)) l)"

definition server_SyncEndpoints :: "error option step" where
  "server_SyncEndpoints l = (SyncEndpoints (server l) (endpoints l), emit (CallSyncEndpoints (endpoints l)) l)"

definition watchFactory_GetEndpointSlices :: "string \<Rightarrow> string \<Rightarrow> (string + EndpointSlice list) step" where
  "watchFactory_GetEndpointSlices namespace name l =
     (GetEndpointSlices (watchFactory l) namespace name, emit (CallGetEndpointSlices namespace name) l)"

subsection \<open>Counting local ready endpoint addresses\<close>

text \<open>
  \<^verbatim>\<open>sets.String.Insert(items...)\<close> adds every item to the set. The two nested
  \<^verbatim>\<open>range\<close> loops are folds over the slices and over each slice's endpoints, with the
  set as accumulator; the result is \<^verbatim>\<open>len\<close> of the set.
\<close>

definition Insert :: "string list \<Rightarrow> string set \<Rightarrow> string set" where
  "Insert items s = fold insert items s"

definition collectEndpoint :: "string \<Rightarrow> Endpoint \<Rightarrow> string set \<Rightarrow> string set" where
  "collectEndpoint node endpoint localEndpointAddresses =
     (let isLocal = (NodeName endpoint \<noteq> None \<and> the (NodeName endpoint) = node)
      in if IsEndpointReady endpoint \<and> isLocal
         then Insert (Addresses endpoint) localEndpointAddresses
         else localEndpointAddresses)"

definition collectSlices :: "string \<Rightarrow> EndpointSlice list \<Rightarrow> string set" where
  "collectSlices node endpointSlices =
     fold (\<lambda>endpointSlice acc. fold (collectEndpoint node) (Endpoints endpointSlice) acc)
          endpointSlices {}"

definition CountLocalReadyEndpointAddresses :: "loadBalancerHealthChecker \<Rightarrow> EndpointSlice list \<Rightarrow> int" where
  "CountLocalReadyEndpointAddresses l endpointSlices = int (card (collectSlices (nodeName l) endpointSlices))"

subsection \<open>Service events\<close>

definition AddService :: "Service \<Rightarrow> error option step" where
  "AddService svc l =
     (if HealthCheckNodePort svc \<noteq> 0 then
        let l = mutex_Lock l;
            name = NamespacedName (svc_Namespace svc) (svc_Name svc);
            l = services_write name (ucast (HealthCheckNodePort svc)) l;
            (err, l) = server_SyncServices l
        in (err, mutex_Unlock l)
      else (None, l))"

definition DeleteService :: "Service \<Rightarrow> error option step" where
  "DeleteService svc l =
     (if HealthCheckNodePort svc \<noteq> 0 then
        let l = mutex_Lock l;
            name = NamespacedName (svc_Namespace svc) (svc_Name svc);
            l = services_delete name l;
            l = endpoints_delete name l;
            (err, l) = server_SyncServices l
        in (err, mutex_Unlock l)
      else (None, l))"

text \<open>
  \<^verbatim>\<open>UpdateService\<close>. The Cluster-to-Local branch returns early when the fetch fails;
  otherwise control falls through to the Local-to-Cluster test and the final return.
\<close>

definition fetchErrorUpdateService :: "string \<Rightarrow> string \<Rightarrow> string \<Rightarrow> error" where
  "fetchErrorUpdateService namespace name err =
     Errorf (''could not fetch endpointslices for service '' @ namespace @ ''/'' @ name
             @ '' during health check update service: '' @ err)"

definition UpdateService :: "Service \<Rightarrow> Service \<Rightarrow> error option step" where
  "UpdateService old new l =
     (let errors = [];
          r = (if ExternalTrafficPolicy old = ServiceExternalTrafficPolicyTypeCluster \<and>
                  ExternalTrafficPolicy new = ServiceExternalTrafficPolicyTypeLocal then
                 let (err, l) = AddService new l;
                     errors = append_err errors err;
                     (fetched, l) = watchFactory_GetEndpointSlices (svc_Namespace new) (svc_Name new) l
                 in (case fetched of
                       Inl err \<Rightarrow>
                         Inl (NewAggregate (errors @ [fetchErrorUpdateService (svc_Namespace new) (svc_Name new) err]), l)
                     | Inr epSlices \<Rightarrow>
                         let namespacedName = NamespacedName (svc_Namespace new) (svc_Name new);
                             l = mutex_Lock l;
                             l = endpoints_write namespacedName (CountLocalReadyEndpointAddresses l epSlices) l;
                             (err, l) = server_SyncEndpoints l;
                             errors = append_err errors err;
                             l = mutex_Unlock l
                         in Inr (errors, l))
               else Inr (errors, l))
      in case r of
           Inl returned \<Rightarrow> returned
         | Inr (errors, l) \<Rightarrow>
             let (errors, l) =
                   (if ExternalTrafficPolicy old = ServiceExternalTrafficPolicyTypeLocal \<and>
                       ExternalTrafficPolicy new = ServiceExternalTrafficPolicyTypeCluster then
                      let (err, l) = DeleteService old l
                      in (append_err errors err, l)
                    else (errors, l))
             in (NewAggregate errors, l))"

subsection \<open>Endpoint-slice events\<close>

definition SyncEndPointSlices :: "EndpointSlice \<Rightarrow> error option step" where
  "SyncEndPointSlices epSlice l =
     (case serviceNamespacedNameFromEndpointSlice epSlice of
        Inl err \<Rightarrow>
          (Some (Errorf (''skipping '' @ eps_Namespace epSlice @ ''/'' @ eps_Name epSlice @ '': '' @ err)), l)
      | Inr namespacedName \<Rightarrow>
          let (fetched, l) = watchFactory_GetEndpointSlices (eps_Namespace epSlice)
                               (map_index (Labels epSlice) LabelServiceName) l
          in (case fetched of
                Inl err \<Rightarrow>
                  (Some (Errorf (''could not fetch all endpointslices for service ''
                                 @ NamespacedName_String namespacedName @ '' during health check'')), l)
              | Inr epSlices \<Rightarrow>
                  let localEndpointAddressCount = CountLocalReadyEndpointAddresses l epSlices;
                      l = (if length epSlices = 0
                           then endpoints_delete namespacedName l
                           else endpoints_write namespacedName localEndpointAddressCount l)
                  in server_SyncEndpoints l))"

definition AddEndpointSlice :: "EndpointSlice \<Rightarrow> error option step" where
  "AddEndpointSlice epSlice l =
     (case serviceNamespacedNameFromEndpointSlice epSlice of
        Inl err \<Rightarrow>
          (Some (Errorf (''cannot add '' @ eps_Namespace epSlice @ ''/'' @ eps_Name epSlice
                         @ '' to loadBalancerHealthChecker: '' @ err)), l)
      | Inr namespacedName \<Rightarrow>
          let l = mutex_Lock l;
              (exists, l) = services_exists namespacedName l
          in if exists
             then let (err, l) = SyncEndPointSlices epSlice l in (err, mutex_Unlock l)
             else (None, mutex_Unlock l))"

definition UpdateEndpointSlice :: "EndpointSlice \<Rightarrow> EndpointSlice \<Rightarrow> error option step" where
  "UpdateEndpointSlice oldEpSlice newEpSlice l =
     (case serviceNamespacedNameFromEndpointSlice newEpSlice of
        Inl err \<Rightarrow>
          (Some (Errorf (''cannot update '' @ eps_Namespace newEpSlice @ ''/'' @ eps_Name newEpSlice
                         @ '' in loadBalancerHealthChecker: '' @ err)), l)
      | Inr namespacedName \<Rightarrow>
          let l = mutex_Lock l;
              (exists, l) = services_exists namespacedName l
          in if exists
             then let (err, l) = SyncEndPointSlices newEpSlice l in (err, mutex_Unlock l)
             else (None, mutex_Unlock l))"

definition DeleteEndpointSlice :: "EndpointSlice \<Rightarrow> error option step" where
  "DeleteEndpointSlice epSlice l =
     (let l = mutex_Lock l;
          (err, l) = SyncEndPointSlices epSlice l
      in (err, mutex_Unlock l))"

subsection \<open>Observing one operation\<close>

text \<open>The events that one operation adds to the trace.\<close>

definition events_of :: "'a step \<Rightarrow> loadBalancerHealthChecker \<Rightarrow> event list" where
  "events_of operation l = drop (length (trace l)) (trace (snd (operation l)))"

text \<open>
  The operation's events lie inside one continuous critical section: the first event takes
  the mutex, the last one releases it, and the mutex is neither taken nor released in
  between.
\<close>

definition under_one_lock :: "event list \<Rightarrow> bool" where
  "under_one_lock evs =
     (case evs of
        [] \<Rightarrow> False
      | e # rest \<Rightarrow> e = Lock \<and> rest \<noteq> [] \<and> last rest = Unlock \<and>
                    Lock \<notin> set (butlast rest) \<and> Unlock \<notin> set (butlast rest))"

text \<open>The invariant of the data model: every key of the endpoints table is a key of the services table.\<close>

definition tables_consistent :: "loadBalancerHealthChecker \<Rightarrow> bool" where
  "tables_consistent l = (dom (endpoints l) \<subseteq> dom (services l))"

text \<open>The same slice with other serving and terminating flags on its endpoints.\<close>

definition withFlags :: "(Endpoint \<Rightarrow> bool) \<Rightarrow> (Endpoint \<Rightarrow> bool) \<Rightarrow> EndpointSlice \<Rightarrow> EndpointSlice" where
  "withFlags serving terminating endpointSlice =
     endpointSlice\<lparr>Endpoints :=
       map (\<lambda>e. e\<lparr>Serving := serving e, Terminating := terminating e\<rparr>) (Endpoints endpointSlice)\<rparr>"

text \<open>
  The endpoints table that a sync of the service \<open>name\<close> is specified to leave, given the
  slices fetched: the service's entry deleted when no slice was fetched, and set to the
  local-ready count otherwise.
\<close>

definition expected_endpoints_after_sync ::
  "loadBalancerHealthChecker \<Rightarrow> NamespacedName \<Rightarrow> EndpointSlice list \<Rightarrow> (NamespacedName \<Rightarrow> int option)" where
  "expected_endpoints_after_sync l name epSlices =
     (if epSlices = [] then (endpoints l)(name := None)
      else (endpoints l)(name \<mapsto> CountLocalReadyEndpointAddresses l epSlices))"

text \<open>The events of \<open>AddService\<close>: one critical section, or nothing for a service without a port.\<close>

definition AddService_events :: "Service \<Rightarrow> loadBalancerHealthChecker \<Rightarrow> event list" where
  "AddService_events svc l =
     (if HealthCheckNodePort svc \<noteq> 0
      then [Lock,
            ServicesWrite (NamespacedName (svc_Namespace svc) (svc_Name svc)) (ucast (HealthCheckNodePort svc)),
            CallSyncServices ((services l)(NamespacedName (svc_Namespace svc) (svc_Name svc) \<mapsto>
                                ucast (HealthCheckNodePort svc))),
            Unlock]
      else [])"

section \<open>The Request Server's validation\<close>

text \<open>
  Modelled from the spec: the Request Server and its request parsing are not among the
  source files; only the test \<^verbatim>\<open>go-controller/pkg/cni/cniserver_test.go\<close> is. What
  follows is the per-connection processing of section 4.1 of the specification, its four
  checks in their order, each failure short-circuiting with its message. The environment
  keys, the command values and the keys of the argument list are those the test sends.
  The specification gives no text for the missing-container-id error, only that it is
  distinct from the other three; \<open>missingContainerID\<close> stands for it.
\<close>

datatype cni_command = CNIAdd | CNIUpdate | CNIDel | CNICheck

record Request =
  Env :: "string \<Rightarrow> string option"
  Config :: string

record PodRequest =
  command :: cni_command
  containerID :: string
  netnsPath :: string
  podNamespace :: string
  podName :: string
  rawConfig :: string

record Response =
  status :: nat
  body :: string

definition StatusOK :: nat where "StatusOK = 200"
definition StatusBadRequest :: nat where "StatusBadRequest = 400"

definition unexpectedCommand :: string where "unexpectedCommand = ''unexpected or missing CNI_COMMAND''"
definition missingContainerID :: string where "missingContainerID = ''missing CNI_CONTAINERID''"
definition missingNetns :: string where "missingNetns = ''missing CNI_NETNS''"
definition missingArgs :: string where "missingArgs = ''missing CNI_ARGS''"

definition parseCommand :: "string \<Rightarrow> cni_command option" where
  "parseCommand s =
     (if s = ''ADD'' then Some CNIAdd
      else if s = ''DEL'' then Some CNIDel
      else if s = ''UPDATE'' then Some CNIUpdate
      else if s = ''CHECK'' then Some CNICheck
      else None)"

text \<open>Splitting at every occurrence of a separator; the empty string gives one empty piece.\<close>

fun splitOn :: "char \<Rightarrow> string \<Rightarrow> string list" where
  "splitOn c [] = [] # []"
| "splitOn c (x # xs) =
     (if x = c then [] # splitOn c xs
      else (case splitOn c xs of [] \<Rightarrow> [x] # [] | p # ps \<Rightarrow> (x # p) # ps))"

text \<open>One \<^verbatim>\<open>KEY=VALUE\<close> pair, split at its first equals sign.\<close>

definition parsePair :: "string \<Rightarrow> (string \<times> string) option" where
  "parsePair s =
     (if CHR ''='' \<in> set s
      then Some (takeWhile (\<lambda>c. c \<noteq> CHR ''='') s, tl (dropWhile (\<lambda>c. c \<noteq> CHR ''='') s))
      else None)"

fun parsePairs :: "string list \<Rightarrow> (string \<times> string) list option" where
  "parsePairs [] = Some []"
| "parsePairs (p # ps) =
     (case parsePair p of
        None \<Rightarrow> None
      | Some kv \<Rightarrow> (case parsePairs ps of None \<Rightarrow> None | Some kvs \<Rightarrow> Some (kv # kvs)))"

definition gatherCNIArgs :: "(string \<Rightarrow> string option) \<Rightarrow> (string \<times> string) option" where
  "gatherCNIArgs env =
     (case env ''CNI_ARGS'' of
        None \<Rightarrow> None
      | Some args \<Rightarrow>
          (case parsePairs (splitOn CHR '';'' args) of
             None \<Rightarrow> None
           | Some kvs \<Rightarrow>
               (case (map_of kvs ''K8S_POD_NAMESPACE'', map_of kvs ''K8S_POD_NAME'') of
                  (Some namespace, Some name) \<Rightarrow> Some (namespace, name)
                | _ \<Rightarrow> None)))"

text \<open>The request's command: none when the key is missing or its value is not recognized.\<close>

definition requestCommand :: "Request \<Rightarrow> cni_command option" where
  "requestCommand cr = (case Env cr ''CNI_COMMAND'' of None \<Rightarrow> None | Some c \<Rightarrow> parseCommand c)"

definition cniRequestToPodRequest :: "Request \<Rightarrow> string + PodRequest" where
  "cniRequestToPodRequest cr =
     (case requestCommand cr of
        None \<Rightarrow> Inl unexpectedCommand
      | Some cmd \<Rightarrow>
          (case Env cr ''CNI_CONTAINERID'' of
             None \<Rightarrow> Inl missingContainerID
           | Some sandbox \<Rightarrow>
               if sandbox = [] then Inl missingContainerID
               else if cmd \<noteq> CNIDel \<and> Env cr ''CNI_NETNS'' = None then Inl missingNetns
               else (case gatherCNIArgs (Env cr) of
                       None \<Rightarrow> Inl missingArgs
                     | Some (namespace, name) \<Rightarrow>
                         Inr \<lparr>command = cmd, containerID = sandbox,
                              netnsPath = map_index (Env cr) ''CNI_NETNS'',
                              podNamespace = namespace, podName = name,
                              rawConfig = Config cr\<rparr>)))"

text \<open>
  The response to one decoded request: 200 with the handler's bytes, or 400 with the
  text of the validation or handler error.
\<close>

definition handleCNIRequest :: "(PodRequest \<Rightarrow> string + string) \<Rightarrow> Request \<Rightarrow> Response" where
  "handleCNIRequest handler cr =
     (case cniRequestToPodRequest cr of
        Inl err \<Rightarrow> \<lparr>status = StatusBadRequest, body = err\<rparr>
      | Inr req \<Rightarrow>
          (case handler req of
             Inl err \<Rightarrow> \<lparr>status = StatusBadRequest, body = err\<rparr>
           | Inr result \<Rightarrow> \<lparr>status = StatusOK, body = result\<rparr>))"

section \<open>Concrete objects\<close>

text \<open>A Health Server that accepts every push, and one that rejects every push.\<close>

definition okServer :: Server where
  "okServer = \<lparr>SyncServices = (\<lambda>_. None), SyncEndpoints = (\<lambda>_. None)\<rparr>"

definition failingServer :: Server where
  "failingServer = \<lparr>SyncServices = (\<lambda>_. Some (Errorf ''services push rejected'')),
                     SyncEndpoints = (\<lambda>_. Some (Errorf ''endpoints push rejected''))\<rparr>"

text \<open>An Object Cache that returns the given slices for every service, and one whose fetch fails.\<close>

definition cacheReturning :: "EndpointSlice list \<Rightarrow> NodeWatchFactory" where
  "cacheReturning epSlices = \<lparr>GetEndpointSlices = (\<lambda>namespace svcName. Inr epSlices)\<rparr>"

definition cacheFailing :: NodeWatchFactory where
  "cacheFailing = \<lparr>GetEndpointSlices = (\<lambda>namespace svcName. Inl ''cache not synced'')\<rparr>"

definition mkEndpoint :: "string list \<Rightarrow> string option \<Rightarrow> bool \<Rightarrow> bool \<Rightarrow> bool \<Rightarrow> Endpoint" where
  "mkEndpoint as n r s t = \<lparr>Addresses = as, NodeName = n, Ready = r, Serving = s, Terminating = t\<rparr>"

text \<open>
  Two slices of service \<open>ns/web\<close>. On \<open>node1\<close>: two ready addresses in the first slice, one
  of them again in the second, and one terminating endpoint that still serves but is not
  ready; besides, an endpoint of another node and one without a node.
\<close>

definition sliceA :: EndpointSlice where
  "sliceA = \<lparr>eps_Namespace = ''ns'', eps_Name = ''web-a'', Labels = [LabelServiceName \<mapsto> ''web''],
     Endpoints = [mkEndpoint [''10.0.0.1'', ''10.0.0.2''] (Some ''node1'') True True False,
                  mkEndpoint [''10.0.0.3''] (Some ''node2'') True True False,
                  mkEndpoint [''10.0.0.4''] (Some ''node1'') False True True]\<rparr>"

definition sliceB :: EndpointSlice where
  "sliceB = \<lparr>eps_Namespace = ''ns'', eps_Name = ''web-b'', Labels = [LabelServiceName \<mapsto> ''web''],
     Endpoints = [mkEndpoint [''10.0.0.2''] (Some ''node1'') True False False,
                  mkEndpoint [''10.0.0.5''] None True True False]\<rparr>"

definition web :: NamespacedName where
  "web = NamespacedName ''ns'' ''web''"

definition mkService :: "string \<Rightarrow> 32 word \<Rightarrow> Service" where
  "mkService policy port = \<lparr>svc_Namespace = ''ns'', svc_Name = ''web'',
                            ExternalTrafficPolicy = policy, HealthCheckNodePort = port\<rparr>"

text \<open>A synchronizer on \<open>node1\<close> with both tables empty, as \<^verbatim>\<open>newLoadBalancerHealthChecker\<close> builds it.\<close>

definition newChecker :: "Server \<Rightarrow> NodeWatchFactory \<Rightarrow> loadBalancerHealthChecker" where
  "newChecker srv cache = \<lparr>nodeName = ''node1'', server = srv, services = Map.empty,
                           endpoints = Map.empty, watchFactory = cache, trace = []\<rparr>"

text \<open>The same with service \<open>ns/web\<close> tracked on port 30000.\<close>

definition trackingChecker :: "Server \<Rightarrow> NodeWatchFactory \<Rightarrow> loadBalancerHealthChecker" where
  "trackingChecker srv cache = (newChecker srv cache)\<lparr>services := [web \<mapsto> 30000]\<rparr>"

text \<open>The requests of the test's failure cases, and a handler that returns no bytes.\<close>

definition noBytesHandler :: "PodRequest \<Rightarrow> string + string" where
  "noBytesHandler req = Inr []"

definition requestWithoutArgs :: Request where
  "requestWithoutArgs = \<lparr>Env = [''CNI_COMMAND'' \<mapsto> ''ADD'', ''CNI_CONTAINERID'' \<mapsto> ''adsfadsfasfdasdfasf'',
                                 ''CNI_NETNS'' \<mapsto> ''/path/to/something''],
                          Config = []\<rparr>"

definition requestWithoutNetns :: Request where
  "requestWithoutNetns = \<lparr>Env = [''CNI_COMMAND'' \<mapsto> ''ADD'', ''CNI_CONTAINERID'' \<mapsto> ''adsfadsfasfdasdfasf'',
                                  ''CNI_ARGS'' \<mapsto> ''K8S_POD_NAMESPACE=awesome-namespace;K8S_POD_NAME=awesome-name''],
                           Config = []\<rparr>"

definition requestWithoutCommand :: Request where
  "requestWithoutCommand = \<lparr>Env = [''CNI_CONTAINERID'' \<mapsto> ''adsfadsfasfdasdfasf'',
                                    ''CNI_NETNS'' \<mapsto> ''/path/to/something'',
                                    ''CNI_ARGS'' \<mapsto> ''K8S_POD_NAMESPACE=awesome-namespace;K8S_POD_NAME=awesome-name''],
                             Config = []\<rparr>"

text \<open>A request with neither a container ID nor arguments.\<close>

definition requestWithoutContainerIDAndArgs :: Request where
  "requestWithoutContainerIDAndArgs = \<lparr>Env = [''CNI_COMMAND'' \<mapsto> ''ADD'',
                                               ''CNI_NETNS'' \<mapsto> ''/path/to/something''],
                                         Config = []\<rparr>"

section \<open>Properties\<close>

lemmas step_defs = emit_def mutex_Lock_def mutex_Unlock_def services_write_def services_delete_def
  services_exists_def endpoints_write_def endpoints_delete_def server_SyncServices_def
  server_SyncEndpoints_def watchFactory_GetEndpointSlices_def

lemmas object_defs = okServer_def failingServer_def cacheReturning_def cacheFailing_def mkEndpoint_def
  sliceA_def sliceB_def web_def mkService_def newChecker_def trackingChecker_def

lemmas message_defs = unexpectedCommand_def missingContainerID_def missingNetns_def missingArgs_def
  StatusBadRequest_def StatusOK_def

lemmas count_defs = CountLocalReadyEndpointAddresses_def collectSlices_def collectEndpoint_def
  Insert_def IsEndpointReady_def

lemmas resolve_defs = serviceNamespacedNameFromEndpointSlice_def map_index_def LabelServiceName_def

lemma policies_distinct [simp]:
  "ServiceExternalTrafficPolicyTypeCluster \<noteq> ServiceExternalTrafficPolicyTypeLocal"
  "ServiceExternalTrafficPolicyTypeLocal \<noteq> ServiceExternalTrafficPolicyTypeCluster"
  by (simp_all add: ServiceExternalTrafficPolicyTypeCluster_def ServiceExternalTrafficPolicyTypeLocal_def)

subsection \<open>The local-ready count\<close>

lemma Insert_eq: "Insert items s = set items \<union> s"
  by (simp add: Insert_def union_set_fold)

lemma collectEndpoint_eq:
  "collectEndpoint node e S = (if NodeName e = Some node \<and> Ready e then set (Addresses e) \<union> S else S)"
  by (auto simp: collectEndpoint_def Insert_eq IsEndpointReady_def Let_def)

lemma fold_collectEndpoint:
  "fold (collectEndpoint node) es S =
     (\<Union>e \<in> {e \<in> set es. NodeName e = Some node \<and> Ready e}. set (Addresses e)) \<union> S"
  by (induction es arbitrary: S) (auto simp: collectEndpoint_eq)

lemma fold_slices:
  "fold (\<lambda>endpointSlice acc. fold (collectEndpoint node) (Endpoints endpointSlice) acc) ss S =
     (\<Union>e \<in> {e \<in> set (concat (map Endpoints ss)). NodeName e = Some node \<and> Ready e}.
        set (Addresses e)) \<union> S"
  by (induction ss arbitrary: S) (auto simp: fold_collectEndpoint)

lemma collectSlices_eq:
  "collectSlices node ss =
     (\<Union>e \<in> {e \<in> set (concat (map Endpoints ss)). NodeName e = Some node \<and> Ready e}.
        set (Addresses e))"
  by (simp add: collectSlices_def fold_slices)

lemma collectEndpoint_flags:
  "collectEndpoint node (e\<lparr>Serving := a, Terminating := b\<rparr>) S = collectEndpoint node e S"
  by (simp add: collectEndpoint_eq)

lemma fold_collectEndpoint_flags:
  "fold (collectEndpoint node) (map (\<lambda>e. e\<lparr>Serving := f e, Terminating := g e\<rparr>) es) S =
   fold (collectEndpoint node) es S"
  by (induction es arbitrary: S) (simp_all add: collectEndpoint_flags)

lemma fold_slices_flags:
  "fold (\<lambda>endpointSlice acc. fold (collectEndpoint node) (Endpoints endpointSlice) acc)
        (map (withFlags f g) ss) S =
   fold (\<lambda>endpointSlice acc. fold (collectEndpoint node) (Endpoints endpointSlice) acc) ss S"
  by (induction ss arbitrary: S) (simp_all add: withFlags_def fold_collectEndpoint_flags)

text \<open>
  C3: for every list of endpoint slices, \<open>CountLocalReadyEndpointAddresses\<close> is the number
  of distinct addresses of the endpoints, over all the slices, whose node name is the
  checker's node name and whose readiness flag is true. An address in several slices is
  counted once (the addresses form a set), an endpoint of another node or without a node
  contributes nothing, and the serving and terminating flags have no influence: the
  count is the same whatever they are set to.
\<close>

theorem CountLocalReadyEndpointAddresses_distinct_local_ready:
  "CountLocalReadyEndpointAddresses l endpointSlices =
     int (card (\<Union>endpoint \<in> {e \<in> set (concat (map Endpoints endpointSlices)).
                                 NodeName e = Some (nodeName l) \<and> Ready e}. set (Addresses endpoint)))
   \<and> CountLocalReadyEndpointAddresses l (map (withFlags serving terminating) endpointSlices) =
     CountLocalReadyEndpointAddresses l endpointSlices"
proof (rule conjI)
  show "CountLocalReadyEndpointAddresses l endpointSlices =
     int (card (\<Union>endpoint \<in> {e \<in> set (concat (map Endpoints endpointSlices)).
                                 NodeName e = Some (nodeName l) \<and> Ready e}. set (Addresses endpoint)))"
    unfolding CountLocalReadyEndpointAddresses_def collectSlices_eq ..
  show "CountLocalReadyEndpointAddresses l (map (withFlags serving terminating) endpointSlices) =
     CountLocalReadyEndpointAddresses l endpointSlices"
    unfolding CountLocalReadyEndpointAddresses_def collectSlices_def fold_slices_flags ..
qed

text \<open>
  On \<open>node1\<close> the two slices hold the ready addresses 10.0.0.1 and 10.0.0.2, the second
  one twice; 10.0.0.3 is on another node, 10.0.0.4 serves but is not ready, and 10.0.0.5 has
  no node.
\<close>

theorem CountLocalReadyEndpointAddresses_distinct_local_ready_witness:
  "CountLocalReadyEndpointAddresses (newChecker okServer (cacheReturning [])) [sliceA, sliceB] = 2"
  using CountLocalReadyEndpointAddresses_distinct_local_ready
          [of "newChecker okServer (cacheReturning [])" "[sliceA, sliceB]"]
  by (simp add: count_defs object_defs)

subsection \<open>The recorded health-check port\<close>

lemma uint_ucast_int32_uint16: "uint (ucast (w :: 32 word) :: 16 word) = sint w mod 2 ^ 16"
proof -
  have "sint w mod 2 ^ 16 = take_bit 16 (sint w)"
    by (simp add: take_bit_eq_mod)
  also have "\<dots> = take_bit 16 (signed_take_bit 31 (uint w))"
    by (simp add: sint_uint)
  also have "\<dots> = take_bit 16 (uint w)"
    by (simp add: take_bit_signed_take_bit)
  also have "\<dots> = uint (ucast w :: 16 word)"
    by (simp add: unsigned_ucast_eq)
  finally show ?thesis by simp
qed

text \<open>
  C10: \<open>AddService\<close> stores the health-check port truncated to 16 bits. For a service whose
  port \<open>p\<close> (an \<^verbatim>\<open>int32\<close>) is not zero, the entry written under the service's name is
  \<open>p\<close> modulo \<open>2 ^ 16\<close>; the decision to track tests the untruncated \<open>p\<close> against zero, and
  with \<open>p = 0\<close> nothing happens at all.
\<close>

theorem AddService_truncates_port:
  "(HealthCheckNodePort svc \<noteq> 0 \<longrightarrow>
      map_option uint (services (snd (AddService svc l)) (NamespacedName (svc_Namespace svc) (svc_Name svc)))
        = Some (sint (HealthCheckNodePort svc) mod 2 ^ 16))
   \<and> (HealthCheckNodePort svc = 0 \<longrightarrow> AddService svc l = (None, l))"
  by (simp add: AddService_def step_defs Let_def uint_ucast_int32_uint16)

text \<open>A service with port 65536 is tracked, with a recorded port of 0.\<close>

theorem AddService_truncates_port_witness:
  "HealthCheckNodePort (mkService ServiceExternalTrafficPolicyTypeLocal 65536) \<noteq> 0 \<and>
   services (snd (AddService (mkService ServiceExternalTrafficPolicyTypeLocal 65536)
                    (newChecker okServer (cacheReturning [])))) web = Some 0"
  using AddService_truncates_port [of "mkService ServiceExternalTrafficPolicyTypeLocal 65536"
          "newChecker okServer (cacheReturning [])"]
  by (simp add: AddService_def step_defs object_defs Let_def)

subsection \<open>Consistency of the two tables\<close>

lemma consistent_absent: "dom e \<subseteq> dom s \<Longrightarrow> s k = None \<Longrightarrow> e k = None"
  by (cases "e k") auto

lemma consistent_delete_idle: "dom e \<subseteq> dom s \<Longrightarrow> s k = None \<Longrightarrow> e(k := None) = e"
  by (rule fun_upd_idem) (rule consistent_absent)

text \<open>
  C1: every operation should keep every key of the endpoints table a key of the services
  table. \<open>DeleteEndpointSlice\<close> does not: it syncs without asking whether the owning
  service is tracked. With both tables empty, deleting one slice of \<open>ns/web\<close> while
  another slice of that service is still in the cache writes an endpoints entry for
  \<open>ns/web\<close>, which the services table does not have.
\<close>

theorem DeleteEndpointSlice_breaks_consistency:
  "tables_consistent (newChecker okServer (cacheReturning [sliceB])) \<and>
   fst (DeleteEndpointSlice sliceA (newChecker okServer (cacheReturning [sliceB]))) = None \<and>
   endpoints (snd (DeleteEndpointSlice sliceA (newChecker okServer (cacheReturning [sliceB])))) web = Some 1 \<and>
   services (snd (DeleteEndpointSlice sliceA (newChecker okServer (cacheReturning [sliceB])))) web = None \<and>
   \<not> tables_consistent (snd (DeleteEndpointSlice sliceA (newChecker okServer (cacheReturning [sliceB]))))"
  by (simp add: tables_consistent_def DeleteEndpointSlice_def SyncEndPointSlices_def step_defs
        object_defs resolve_defs count_defs Let_def)

text \<open>
  The Cluster-to-Local branch of \<open>UpdateService\<close> has the same effect for a service whose
  health-check port is zero: \<open>AddService\<close> skips it, the endpoints entry is written anyway.
\<close>

lemma UpdateService_port_zero_breaks_consistency:
  "\<not> tables_consistent (snd (UpdateService (mkService ServiceExternalTrafficPolicyTypeCluster 0)
        (mkService ServiceExternalTrafficPolicyTypeLocal 0) (newChecker okServer (cacheReturning [sliceA]))))"
  by (simp add: tables_consistent_def UpdateService_def AddService_def step_defs
        object_defs Let_def append_err_def NewAggregate_def)

subsection \<open>Endpoint-slice events of an untracked service\<close>

text \<open>
  C2: an endpoint-slice event whose owning service is untracked should change nothing and
  push nothing. \<open>DeleteEndpointSlice\<close> does both: for the untracked service \<open>ns/web\<close> it
  fetches the service's slices, writes the count 1 into the endpoints table and pushes
  that table to the Health Server.
\<close>

theorem DeleteEndpointSlice_untracked_syncs:
  "services (newChecker okServer (cacheReturning [sliceB])) web = None \<and>
   serviceNamespacedNameFromEndpointSlice sliceA = Inr web \<and>
   endpoints (snd (DeleteEndpointSlice sliceA (newChecker okServer (cacheReturning [sliceB])))) = [web \<mapsto> 1] \<and>
   events_of (DeleteEndpointSlice sliceA) (newChecker okServer (cacheReturning [sliceB])) =
     [Lock, CallGetEndpointSlices ''ns'' ''web'', EndpointsWrite web 1, CallSyncEndpoints [web \<mapsto> 1], Unlock]"
  by (simp add: events_of_def DeleteEndpointSlice_def SyncEndPointSlices_def step_defs
        object_defs resolve_defs count_defs Let_def)

text \<open>\<open>AddEndpointSlice\<close> and \<open>UpdateEndpointSlice\<close> do ignore the slices of an untracked service.\<close>

lemma AddEndpointSlice_untracked_noop:
  assumes "serviceNamespacedNameFromEndpointSlice epSlice = Inr name" and "services l name = None"
  shows "fst (AddEndpointSlice epSlice l) = None"
    and "services (snd (AddEndpointSlice epSlice l)) = services l"
    and "endpoints (snd (AddEndpointSlice epSlice l)) = endpoints l"
    and "events_of (AddEndpointSlice epSlice) l = [Lock, ServicesRead name, Unlock]"
  using assms by (simp_all add: AddEndpointSlice_def events_of_def step_defs Let_def)

lemma UpdateEndpointSlice_untracked_noop:
  assumes "serviceNamespacedNameFromEndpointSlice newEpSlice = Inr name" and "services l name = None"
  shows "fst (UpdateEndpointSlice oldEpSlice newEpSlice l) = None"
    and "services (snd (UpdateEndpointSlice oldEpSlice newEpSlice l)) = services l"
    and "endpoints (snd (UpdateEndpointSlice oldEpSlice newEpSlice l)) = endpoints l"
    and "events_of (UpdateEndpointSlice oldEpSlice newEpSlice) l = [Lock, ServicesRead name, Unlock]"
  using assms by (simp_all add: UpdateEndpointSlice_def events_of_def step_defs Let_def)

subsection \<open>Deleting an untracked service\<close>

text \<open>
  C6, as stated: \<open>DeleteService\<close> on a service without a services entry returns nil and
  leaves both tables unchanged. \<open>DeleteService\<close> tests the health-check port, not the
  table: for an untracked service with a non-zero port it still pushes the services table
  and returns what the push returns, here the Health Server's error.
\<close>

theorem DeleteService_untracked_counterexample:
  "services (newChecker failingServer (cacheReturning [])) web = None \<and>
   fst (DeleteService (mkService ServiceExternalTrafficPolicyTypeLocal 30000)
          (newChecker failingServer (cacheReturning []))) = Some (Errorf ''services push rejected'')"
  by (simp add: DeleteService_def step_defs object_defs Let_def)

text \<open>
  With an accepting Health Server the call returns nil, but it removes an endpoints entry
  that was left behind for the untracked service.
\<close>

lemma DeleteService_untracked_removes_orphan:
  "services ((newChecker okServer (cacheReturning []))\<lparr>endpoints := [web \<mapsto> 1]\<rparr>) web = None \<and>
   endpoints (snd (DeleteService (mkService ServiceExternalTrafficPolicyTypeLocal 30000)
                     ((newChecker okServer (cacheReturning []))\<lparr>endpoints := [web \<mapsto> 1]\<rparr>))) = Map.empty"
  by (simp add: DeleteService_def step_defs object_defs Let_def)

text \<open>
  C6, amended: \<open>DeleteService\<close> on a service whose health-check port is zero returns nil and
  changes nothing. On a service with a non-zero port and no services entry it returns the
  result of pushing the services table, leaves the services table unchanged and removes
  the service's endpoints entry; there is no such entry, so the endpoints table is
  unchanged too, when every key of the endpoints table is a key of the services table.
\<close>

theorem DeleteService_untracked:
  "(HealthCheckNodePort svc = 0 \<longrightarrow> DeleteService svc l = (None, l)) \<and>
   (HealthCheckNodePort svc \<noteq> 0 \<and> services l (NamespacedName (svc_Namespace svc) (svc_Name svc)) = None \<longrightarrow>
      fst (DeleteService svc l) = SyncServices (server l) (services l) \<and>
      services (snd (DeleteService svc l)) = services l \<and>
      endpoints (snd (DeleteService svc l)) =
        (endpoints l)(NamespacedName (svc_Namespace svc) (svc_Name svc) := None) \<and>
      (tables_consistent l \<longrightarrow> endpoints (snd (DeleteService svc l)) = endpoints l))"
  by (auto simp add: DeleteService_def step_defs Let_def tables_consistent_def fun_upd_idem
        consistent_delete_idle)

theorem DeleteService_untracked_witness:
  "HealthCheckNodePort (mkService ServiceExternalTrafficPolicyTypeCluster 0) = 0 \<and>
   DeleteService (mkService ServiceExternalTrafficPolicyTypeCluster 0) (trackingChecker okServer (cacheReturning []))
     = (None, trackingChecker okServer (cacheReturning [])) \<and>
   HealthCheckNodePort (mkService ServiceExternalTrafficPolicyTypeLocal 30000) \<noteq> 0 \<and>
   services (newChecker okServer (cacheReturning [])) (NamespacedName ''ns'' ''web'') = None \<and>
   tables_consistent (newChecker okServer (cacheReturning [])) \<and>
   fst (DeleteService (mkService ServiceExternalTrafficPolicyTypeLocal 30000)
          (newChecker okServer (cacheReturning []))) = None \<and>
   endpoints (snd (DeleteService (mkService ServiceExternalTrafficPolicyTypeLocal 30000)
                     (newChecker okServer (cacheReturning []))))
     = endpoints (newChecker okServer (cacheReturning []))"
  using DeleteService_untracked [of "mkService ServiceExternalTrafficPolicyTypeCluster 0"
          "trackingChecker okServer (cacheReturning [])"]
        DeleteService_untracked [of "mkService ServiceExternalTrafficPolicyTypeLocal 30000"
          "newChecker okServer (cacheReturning [])"]
  by (simp add: object_defs tables_consistent_def)

subsection \<open>Syncing the endpoints of a service\<close>

lemma Count_trace [simp]:
  "CountLocalReadyEndpointAddresses (l\<lparr>trace := t\<rparr>) epSlices = CountLocalReadyEndpointAddresses l epSlices"
  "CountLocalReadyEndpointAddresses (l\<lparr>services := s\<rparr>) epSlices = CountLocalReadyEndpointAddresses l epSlices"
  "CountLocalReadyEndpointAddresses (l\<lparr>endpoints := e\<rparr>) epSlices = CountLocalReadyEndpointAddresses l epSlices"
  by (simp_all add: CountLocalReadyEndpointAddresses_def)

lemma SyncEndPointSlices_fetched:
  assumes "serviceNamespacedNameFromEndpointSlice epSlice = Inr name"
      and "GetEndpointSlices (watchFactory l) (eps_Namespace epSlice)
             (map_index (Labels epSlice) LabelServiceName) = Inr epSlices"
  shows "SyncEndPointSlices epSlice l =
     (SyncEndpoints (server l) (expected_endpoints_after_sync l name epSlices),
      l\<lparr>endpoints := expected_endpoints_after_sync l name epSlices,
        trace := trace l @ [CallGetEndpointSlices (eps_Namespace epSlice) (map_index (Labels epSlice) LabelServiceName),
                            if epSlices = [] then EndpointsDelete name
                            else EndpointsWrite name (CountLocalReadyEndpointAddresses l epSlices),
                            CallSyncEndpoints (expected_endpoints_after_sync l name epSlices)]\<rparr>)"
  using assms
  by (simp add: SyncEndPointSlices_def step_defs Let_def expected_endpoints_after_sync_def)

lemma expected_trace [simp]:
  "expected_endpoints_after_sync (l\<lparr>trace := t\<rparr>) name epSlices = expected_endpoints_after_sync l name epSlices"
  by (simp add: expected_endpoints_after_sync_def)

text \<open>
  C7: in an endpoint-slice sync for a tracked service, when the fetch of the service's
  slices succeeds, the service's endpoints entry is deleted if no slice was fetched (no
  zero is written) and set to the local-ready count otherwise; then the whole endpoints
  table is pushed to the Health Server, whatever the entry was before, and the push's
  result is returned. \<open>AddEndpointSlice\<close>, \<open>UpdateEndpointSlice\<close> and
  \<open>DeleteEndpointSlice\<close> all do so.
\<close>

theorem sync_deletes_or_writes_then_pushes:
  assumes "serviceNamespacedNameFromEndpointSlice epSlice = Inr name"
      and "GetEndpointSlices (watchFactory l) (eps_Namespace epSlice)
             (map_index (Labels epSlice) LabelServiceName) = Inr epSlices"
      and "services l name \<noteq> None"
  shows "endpoints (snd (AddEndpointSlice epSlice l)) = expected_endpoints_after_sync l name epSlices \<and>
         fst (AddEndpointSlice epSlice l) = SyncEndpoints (server l) (expected_endpoints_after_sync l name epSlices) \<and>
         events_of (AddEndpointSlice epSlice) l =
           [Lock, ServicesRead name,
            CallGetEndpointSlices (eps_Namespace epSlice) (map_index (Labels epSlice) LabelServiceName),
            if epSlices = [] then EndpointsDelete name
            else EndpointsWrite name (CountLocalReadyEndpointAddresses l epSlices),
            CallSyncEndpoints (expected_endpoints_after_sync l name epSlices), Unlock] \<and>
         UpdateEndpointSlice oldEpSlice epSlice l = AddEndpointSlice epSlice l \<and>
         endpoints (snd (DeleteEndpointSlice epSlice l)) = expected_endpoints_after_sync l name epSlices \<and>
         fst (DeleteEndpointSlice epSlice l) = SyncEndpoints (server l) (expected_endpoints_after_sync l name epSlices) \<and>
         events_of (DeleteEndpointSlice epSlice) l =
           [Lock,
            CallGetEndpointSlices (eps_Namespace epSlice) (map_index (Labels epSlice) LabelServiceName),
            if epSlices = [] then EndpointsDelete name
            else EndpointsWrite name (CountLocalReadyEndpointAddresses l epSlices),
            CallSyncEndpoints (expected_endpoints_after_sync l name epSlices), Unlock]"
proof -
  let ?l1 = "l\<lparr>trace := trace l @ [Lock, ServicesRead name]\<rparr>"
  let ?l2 = "l\<lparr>trace := trace l @ [Lock]\<rparr>"
  have f1: "GetEndpointSlices (watchFactory ?l1) (eps_Namespace epSlice)
             (map_index (Labels epSlice) LabelServiceName) = Inr epSlices"
    and f2: "GetEndpointSlices (watchFactory ?l2) (eps_Namespace epSlice)
             (map_index (Labels epSlice) LabelServiceName) = Inr epSlices"
    using assms(2) by simp_all
  note s1 = SyncEndPointSlices_fetched [OF assms(1) f1]
  note s2 = SyncEndPointSlices_fetched [OF assms(1) f2]
  have add: "AddEndpointSlice epSlice l =
      (let (err, l') = SyncEndPointSlices epSlice ?l1 in (err, mutex_Unlock l'))"
    using assms(1,3) by (simp add: AddEndpointSlice_def step_defs Let_def)
  have upd: "UpdateEndpointSlice oldEpSlice epSlice l =
      (let (err, l') = SyncEndPointSlices epSlice ?l1 in (err, mutex_Unlock l'))"
    using assms(1,3) by (simp add: UpdateEndpointSlice_def step_defs Let_def)
  have del: "DeleteEndpointSlice epSlice l =
      (let (err, l') = SyncEndPointSlices epSlice ?l2 in (err, mutex_Unlock l'))"
    by (simp add: DeleteEndpointSlice_def step_defs Let_def)
  show ?thesis
    by (simp add: events_of_def upd add del s1 s2 step_defs)
qed

text \<open>
  With \<open>ns/web\<close> tracked and two slices fetched the entry becomes 2 and the table is
  pushed; with no slice fetched an entry that was 2 is deleted and the empty table is pushed.
\<close>

theorem sync_deletes_or_writes_then_pushes_witness:
  "serviceNamespacedNameFromEndpointSlice sliceA = Inr web \<and>
   GetEndpointSlices (watchFactory (trackingChecker okServer (cacheReturning [sliceA, sliceB])))
     (eps_Namespace sliceA) (map_index (Labels sliceA) LabelServiceName) = Inr [sliceA, sliceB] \<and>
   services (trackingChecker okServer (cacheReturning [sliceA, sliceB])) web \<noteq> None \<and>
   endpoints (snd (AddEndpointSlice sliceA (trackingChecker okServer (cacheReturning [sliceA, sliceB])))) = [web \<mapsto> 2] \<and>
   events_of (AddEndpointSlice sliceA) (trackingChecker okServer (cacheReturning [sliceA, sliceB])) =
     [Lock, ServicesRead web, CallGetEndpointSlices ''ns'' ''web'', EndpointsWrite web 2,
      CallSyncEndpoints [web \<mapsto> 2], Unlock] \<and>
   GetEndpointSlices (watchFactory ((trackingChecker okServer (cacheReturning []))\<lparr>endpoints := [web \<mapsto> 2]\<rparr>))
     (eps_Namespace sliceA) (map_index (Labels sliceA) LabelServiceName) = Inr [] \<and>
   services ((trackingChecker okServer (cacheReturning []))\<lparr>endpoints := [web \<mapsto> 2]\<rparr>) web \<noteq> None \<and>
   endpoints (snd (DeleteEndpointSlice sliceA ((trackingChecker okServer (cacheReturning []))\<lparr>endpoints := [web \<mapsto> 2]\<rparr>)))
     = Map.empty \<and>
   events_of (DeleteEndpointSlice sliceA) ((trackingChecker okServer (cacheReturning []))\<lparr>endpoints := [web \<mapsto> 2]\<rparr>) =
     [Lock, CallGetEndpointSlices ''ns'' ''web'', EndpointsDelete web, CallSyncEndpoints Map.empty, Unlock]"
  using sync_deletes_or_writes_then_pushes [of sliceA web "trackingChecker okServer (cacheReturning [sliceA, sliceB])"
          "[sliceA, sliceB]"]
        sync_deletes_or_writes_then_pushes [of sliceA web
          "(trackingChecker okServer (cacheReturning []))\<lparr>endpoints := [web \<mapsto> 2]\<rparr>" "[]"]
  by (simp add: expected_endpoints_after_sync_def object_defs resolve_defs count_defs)

text \<open>
  Only an empty fetch deletes the entry. When slices were fetched but none of their
  endpoints is local and ready, the computed count is 0 and that count is written.
\<close>

lemma sync_writes_zero_for_remote_endpoints:
  "endpoints (snd (AddEndpointSlice sliceA ((trackingChecker okServer (cacheReturning [sliceA]))\<lparr>nodeName := ''node3''\<rparr>)))
     = [web \<mapsto> 0]"
  by (simp add: AddEndpointSlice_def SyncEndPointSlices_def step_defs object_defs resolve_defs count_defs Let_def)

subsection \<open>The branches of \<open>UpdateService\<close>\<close>

lemma AddService_frame [simp]:
  "endpoints (snd (AddService svc l)) = endpoints l"
  "server (snd (AddService svc l)) = server l"
  "watchFactory (snd (AddService svc l)) = watchFactory l"
  "nodeName (snd (AddService svc l)) = nodeName l"
  by (simp_all add: AddService_def step_defs Let_def)

lemma AddService_trace: "trace (snd (AddService svc l)) = trace l @ AddService_events svc l"
  by (simp add: AddService_events_def AddService_def step_defs Let_def)

lemma events_of_AddService: "events_of (AddService svc) l = AddService_events svc l"
  by (simp add: events_of_def AddService_trace)

lemma UpdateService_Cluster_to_Local:
  assumes "ExternalTrafficPolicy old = ServiceExternalTrafficPolicyTypeCluster"
      and "ExternalTrafficPolicy new = ServiceExternalTrafficPolicyTypeLocal"
  shows "UpdateService old new l =
    (let l1 = snd (AddService new l);
         errors = append_err [] (fst (AddService new l));
         l2 = emit (CallGetEndpointSlices (svc_Namespace new) (svc_Name new)) l1
     in case GetEndpointSlices (watchFactory l) (svc_Namespace new) (svc_Name new) of
          Inl err \<Rightarrow> (NewAggregate (errors @ [fetchErrorUpdateService (svc_Namespace new) (svc_Name new) err]), l2)
        | Inr epSlices \<Rightarrow>
            let table = (endpoints l)(NamespacedName (svc_Namespace new) (svc_Name new) \<mapsto>
                           CountLocalReadyEndpointAddresses l epSlices)
            in (NewAggregate (append_err errors (SyncEndpoints (server l) table)),
                l2\<lparr>endpoints := table,
                   trace := trace l2 @ [Lock, EndpointsWrite (NamespacedName (svc_Namespace new) (svc_Name new))
                                                 (CountLocalReadyEndpointAddresses l epSlices),
                                        CallSyncEndpoints table, Unlock]\<rparr>))"
proof -
  obtain err1 l1 where a: "AddService new l = (err1, l1)"
    by (cases "AddService new l")
  have frame: "endpoints l1 = endpoints l" "server l1 = server l" "watchFactory l1 = watchFactory l"
    "nodeName l1 = nodeName l"
    using AddService_frame [of new l] a by simp_all
  show ?thesis
  proof (cases "GetEndpointSlices (watchFactory l) (svc_Namespace new) (svc_Name new)")
    case (Inl err)
    then show ?thesis
      using assms a frame by (simp add: UpdateService_def step_defs)
  next
    case (Inr epSlices)
    then show ?thesis
      using assms a frame by (simp add: UpdateService_def step_defs CountLocalReadyEndpointAddresses_def Let_def)
  qed
qed

lemma UpdateService_Local_to_Cluster:
  assumes "ExternalTrafficPolicy old = ServiceExternalTrafficPolicyTypeLocal"
      and "ExternalTrafficPolicy new = ServiceExternalTrafficPolicyTypeCluster"
  shows "UpdateService old new l =
           (NewAggregate (append_err [] (fst (DeleteService old l))), snd (DeleteService old l))"
  using assms by (simp add: UpdateService_def case_prod_beta)

lemma UpdateService_otherwise:
  assumes "\<not> (ExternalTrafficPolicy old = ServiceExternalTrafficPolicyTypeCluster \<and>
               ExternalTrafficPolicy new = ServiceExternalTrafficPolicyTypeLocal)"
      and "\<not> (ExternalTrafficPolicy old = ServiceExternalTrafficPolicyTypeLocal \<and>
               ExternalTrafficPolicy new = ServiceExternalTrafficPolicyTypeCluster)"
  shows "UpdateService old new l = (None, l)"
  using assms by (auto simp add: UpdateService_def NewAggregate_def)

lemma UpdateService_Cluster_to_Local_events:
  assumes "ExternalTrafficPolicy old = ServiceExternalTrafficPolicyTypeCluster"
      and "ExternalTrafficPolicy new = ServiceExternalTrafficPolicyTypeLocal"
  shows "events_of (UpdateService old new) l =
           AddService_events new l @
           CallGetEndpointSlices (svc_Namespace new) (svc_Name new) #
           (case GetEndpointSlices (watchFactory l) (svc_Namespace new) (svc_Name new) of
              Inl err \<Rightarrow> []
            | Inr epSlices \<Rightarrow>
                [Lock,
                 EndpointsWrite (NamespacedName (svc_Namespace new) (svc_Name new))
                   (CountLocalReadyEndpointAddresses l epSlices),
                 CallSyncEndpoints ((endpoints l)(NamespacedName (svc_Namespace new) (svc_Name new) \<mapsto>
                                      CountLocalReadyEndpointAddresses l epSlices)),
                 Unlock])"
  by (simp add: events_of_def UpdateService_Cluster_to_Local [OF assms] Let_def emit_def AddService_trace
        split: sum.splits)

text \<open>
  C4: on a Cluster-to-Local transition \<open>UpdateService\<close> fetches the endpoint slices
  whether or not \<open>AddService\<close> failed and, when the fetch succeeds, pushes the endpoints
  table with the new count; it returns the aggregate of all the failures in order: the
  error of \<open>AddService\<close> if any, then the wrapped fetch error or, when the fetch
  succeeded, the error of the endpoints push if any (nil when there is none).
\<close>

theorem UpdateService_collects_errors:
  assumes "ExternalTrafficPolicy old = ServiceExternalTrafficPolicyTypeCluster"
      and "ExternalTrafficPolicy new = ServiceExternalTrafficPolicyTypeLocal"
  shows "CallGetEndpointSlices (svc_Namespace new) (svc_Name new) \<in> set (events_of (UpdateService old new) l) \<and>
         (case GetEndpointSlices (watchFactory l) (svc_Namespace new) (svc_Name new) of
            Inl err \<Rightarrow> True
          | Inr epSlices \<Rightarrow>
              CallSyncEndpoints ((endpoints l)(NamespacedName (svc_Namespace new) (svc_Name new) \<mapsto>
                                   CountLocalReadyEndpointAddresses l epSlices))
                \<in> set (events_of (UpdateService old new) l)) \<and>
         fst (UpdateService old new l) =
           NewAggregate
             (append_err [] (fst (AddService new l)) @
              (case GetEndpointSlices (watchFactory l) (svc_Namespace new) (svc_Name new) of
                 Inl err \<Rightarrow> [fetchErrorUpdateService (svc_Namespace new) (svc_Name new) err]
               | Inr epSlices \<Rightarrow>
                   append_err []
                     (SyncEndpoints (server l)
                        ((endpoints l)(NamespacedName (svc_Namespace new) (svc_Name new) \<mapsto>
                           CountLocalReadyEndpointAddresses l epSlices)))))"
proof (intro conjI)
  note ev = UpdateService_Cluster_to_Local_events [OF assms, of l]
  show "CallGetEndpointSlices (svc_Namespace new) (svc_Name new) \<in> set (events_of (UpdateService old new) l)"
    unfolding ev by simp
  show "case GetEndpointSlices (watchFactory l) (svc_Namespace new) (svc_Name new) of
            Inl err \<Rightarrow> True
          | Inr epSlices \<Rightarrow>
              CallSyncEndpoints ((endpoints l)(NamespacedName (svc_Namespace new) (svc_Name new) \<mapsto>
                                   CountLocalReadyEndpointAddresses l epSlices))
                \<in> set (events_of (UpdateService old new) l)"
    unfolding ev by (simp split: sum.splits)
  show "fst (UpdateService old new l) =
           NewAggregate
             (append_err [] (fst (AddService new l)) @
              (case GetEndpointSlices (watchFactory l) (svc_Namespace new) (svc_Name new) of
                 Inl err \<Rightarrow> [fetchErrorUpdateService (svc_Namespace new) (svc_Name new) err]
               | Inr epSlices \<Rightarrow>
                   append_err []
                     (SyncEndpoints (server l)
                        ((endpoints l)(NamespacedName (svc_Namespace new) (svc_Name new) \<mapsto>
                           CountLocalReadyEndpointAddresses l epSlices)))))"
    unfolding UpdateService_Cluster_to_Local [OF assms, of l]
    by (simp add: Let_def append_err_def split: sum.splits option.splits)
qed

text \<open>
  The services push fails, and then either the fetch fails or the endpoints push does: in
  both runs the fetch is attempted and both errors are in the aggregate.
\<close>

theorem UpdateService_collects_errors_witness:
  "ExternalTrafficPolicy (mkService ServiceExternalTrafficPolicyTypeCluster 30000) = ServiceExternalTrafficPolicyTypeCluster \<and>
   ExternalTrafficPolicy (mkService ServiceExternalTrafficPolicyTypeLocal 30000) = ServiceExternalTrafficPolicyTypeLocal \<and>
   fst (AddService (mkService ServiceExternalTrafficPolicyTypeLocal 30000) (newChecker failingServer cacheFailing))
     = Some (Errorf ''services push rejected'') \<and>
   CallGetEndpointSlices ''ns'' ''web'' \<in> set (events_of (UpdateService (mkService ServiceExternalTrafficPolicyTypeCluster 30000)
        (mkService ServiceExternalTrafficPolicyTypeLocal 30000)) (newChecker failingServer cacheFailing)) \<and>
   fst (UpdateService (mkService ServiceExternalTrafficPolicyTypeCluster 30000)
        (mkService ServiceExternalTrafficPolicyTypeLocal 30000) (newChecker failingServer cacheFailing)) =
     Some (Aggregate [Errorf ''services push rejected'',
                      Errorf ''could not fetch endpointslices for service ns/web during health check update service: cache not synced'']) \<and>
   CallSyncEndpoints [web \<mapsto> 2] \<in> set (events_of (UpdateService (mkService ServiceExternalTrafficPolicyTypeCluster 30000)
        (mkService ServiceExternalTrafficPolicyTypeLocal 30000)) (newChecker failingServer (cacheReturning [sliceA, sliceB]))) \<and>
   fst (UpdateService (mkService ServiceExternalTrafficPolicyTypeCluster 30000)
        (mkService ServiceExternalTrafficPolicyTypeLocal 30000) (newChecker failingServer (cacheReturning [sliceA, sliceB]))) =
     Some (Aggregate [Errorf ''services push rejected'', Errorf ''endpoints push rejected''])"
  using UpdateService_collects_errors [of "mkService ServiceExternalTrafficPolicyTypeCluster 30000" "mkService ServiceExternalTrafficPolicyTypeLocal 30000"
              "newChecker failingServer cacheFailing"]
        UpdateService_collects_errors [of "mkService ServiceExternalTrafficPolicyTypeCluster 30000" "mkService ServiceExternalTrafficPolicyTypeLocal 30000"
              "newChecker failingServer (cacheReturning [sliceA, sliceB])"]
  by (simp add: object_defs AddService_def step_defs Let_def append_err_def NewAggregate_def
        fetchErrorUpdateService_def count_defs)

subsection \<open>Failure of the fetch\<close>

text \<open>
  C5: when \<open>GetEndpointSlices\<close> fails, the operation returns an error that carries the
  service's namespaced name and the endpoints table is left as it was. In the
  Cluster-to-Local branch of \<open>UpdateService\<close> the wrapped error is the last of the
  aggregate; in an endpoint-slice event (for \<open>AddEndpointSlice\<close> and
  \<open>UpdateEndpointSlice\<close>, of a tracked service, since only then is there a fetch) it is
  the error returned, and the services table is unchanged too.
\<close>

theorem fetch_failure_leaves_tables:
  "(ExternalTrafficPolicy old = ServiceExternalTrafficPolicyTypeCluster \<and>
    ExternalTrafficPolicy new = ServiceExternalTrafficPolicyTypeLocal \<and>
    GetEndpointSlices (watchFactory l) (svc_Namespace new) (svc_Name new) = Inl err \<longrightarrow>
      fst (UpdateService old new l) =
        Some (Aggregate (append_err [] (fst (AddService new l)) @
          [Errorf (''could not fetch endpointslices for service '' @ svc_Namespace new @ ''/'' @ svc_Name new
                   @ '' during health check update service: '' @ err)])) \<and>
      endpoints (snd (UpdateService old new l)) = endpoints l) \<and>
   (serviceNamespacedNameFromEndpointSlice epSlice = Inr name \<and>
    GetEndpointSlices (watchFactory l) (eps_Namespace epSlice) (map_index (Labels epSlice) LabelServiceName) = Inl err \<longrightarrow>
      (services l name \<noteq> None \<longrightarrow>
         fst (AddEndpointSlice epSlice l) =
           Some (Errorf (''could not fetch all endpointslices for service '' @ NamespacedName_String name
                         @ '' during health check'')) \<and>
         endpoints (snd (AddEndpointSlice epSlice l)) = endpoints l \<and>
         services (snd (AddEndpointSlice epSlice l)) = services l \<and>
         fst (UpdateEndpointSlice oldEpSlice epSlice l) =
           Some (Errorf (''could not fetch all endpointslices for service '' @ NamespacedName_String name
                         @ '' during health check'')) \<and>
         endpoints (snd (UpdateEndpointSlice oldEpSlice epSlice l)) = endpoints l \<and>
         services (snd (UpdateEndpointSlice oldEpSlice epSlice l)) = services l) \<and>
      fst (DeleteEndpointSlice epSlice l) =
        Some (Errorf (''could not fetch all endpointslices for service '' @ NamespacedName_String name
                      @ '' during health check'')) \<and>
      endpoints (snd (DeleteEndpointSlice epSlice l)) = endpoints l \<and>
      services (snd (DeleteEndpointSlice epSlice l)) = services l)"
proof (intro conjI impI; (elim conjE)?)
  assume a: "ExternalTrafficPolicy old = ServiceExternalTrafficPolicyTypeCluster"
            "ExternalTrafficPolicy new = ServiceExternalTrafficPolicyTypeLocal"
            "GetEndpointSlices (watchFactory l) (svc_Namespace new) (svc_Name new) = Inl err"
  show "fst (UpdateService old new l) =
        Some (Aggregate (append_err [] (fst (AddService new l)) @
          [Errorf (''could not fetch endpointslices for service '' @ svc_Namespace new @ ''/'' @ svc_Name new
                   @ '' during health check update service: '' @ err)]))"
    using a(3)
    by (simp add: UpdateService_Cluster_to_Local [OF a(1,2)] Let_def NewAggregate_def fetchErrorUpdateService_def)
  show "endpoints (snd (UpdateService old new l)) = endpoints l"
    using a(3)
    by (simp add: UpdateService_Cluster_to_Local [OF a(1,2)] Let_def emit_def)
next
  assume a: "serviceNamespacedNameFromEndpointSlice epSlice = Inr name"
     "GetEndpointSlices (watchFactory l) (eps_Namespace epSlice) (map_index (Labels epSlice) LabelServiceName) = Inl err"
  show "fst (DeleteEndpointSlice epSlice l) =
        Some (Errorf (''could not fetch all endpointslices for service '' @ NamespacedName_String name
                      @ '' during health check''))"
    and "endpoints (snd (DeleteEndpointSlice epSlice l)) = endpoints l"
    and "services (snd (DeleteEndpointSlice epSlice l)) = services l"
    using a by (simp_all add: DeleteEndpointSlice_def SyncEndPointSlices_def step_defs Let_def)
  assume t: "services l name \<noteq> None"
  show "fst (AddEndpointSlice epSlice l) =
           Some (Errorf (''could not fetch all endpointslices for service '' @ NamespacedName_String name
                         @ '' during health check''))"
   and "endpoints (snd (AddEndpointSlice epSlice l)) = endpoints l"
   and "services (snd (AddEndpointSlice epSlice l)) = services l"
    using a t by (auto simp add: AddEndpointSlice_def SyncEndPointSlices_def step_defs Let_def)
  show "fst (UpdateEndpointSlice oldEpSlice epSlice l) =
           Some (Errorf (''could not fetch all endpointslices for service '' @ NamespacedName_String name
                         @ '' during health check''))"
   and "endpoints (snd (UpdateEndpointSlice oldEpSlice epSlice l)) = endpoints l"
   and "services (snd (UpdateEndpointSlice oldEpSlice epSlice l)) = services l"
    using a t by (auto simp add: UpdateEndpointSlice_def SyncEndPointSlices_def step_defs Let_def)
qed

text \<open>The fetch fails while the endpoints table holds \<open>ns/web \<mapsto> 2\<close>: the entry stays.\<close>

theorem fetch_failure_leaves_tables_witness:
  "ExternalTrafficPolicy (mkService ServiceExternalTrafficPolicyTypeCluster 30000) = ServiceExternalTrafficPolicyTypeCluster \<and>
   ExternalTrafficPolicy (mkService ServiceExternalTrafficPolicyTypeLocal 30000) = ServiceExternalTrafficPolicyTypeLocal \<and>
   GetEndpointSlices (watchFactory ((trackingChecker okServer cacheFailing)\<lparr>endpoints := [web \<mapsto> 2]\<rparr>)) ''ns'' ''web''
     = Inl ''cache not synced'' \<and>
   fst (UpdateService (mkService ServiceExternalTrafficPolicyTypeCluster 30000)
         (mkService ServiceExternalTrafficPolicyTypeLocal 30000)
         ((trackingChecker okServer cacheFailing)\<lparr>endpoints := [web \<mapsto> 2]\<rparr>)) =
     Some (Aggregate [Errorf ''could not fetch endpointslices for service ns/web during health check update service: cache not synced'']) \<and>
   endpoints (snd (UpdateService (mkService ServiceExternalTrafficPolicyTypeCluster 30000)
         (mkService ServiceExternalTrafficPolicyTypeLocal 30000)
         ((trackingChecker okServer cacheFailing)\<lparr>endpoints := [web \<mapsto> 2]\<rparr>))) = [web \<mapsto> 2] \<and>
   serviceNamespacedNameFromEndpointSlice sliceA = Inr web \<and>
   services ((trackingChecker okServer cacheFailing)\<lparr>endpoints := [web \<mapsto> 2]\<rparr>) web \<noteq> None \<and>
   fst (AddEndpointSlice sliceA ((trackingChecker okServer cacheFailing)\<lparr>endpoints := [web \<mapsto> 2]\<rparr>)) =
     Some (Errorf ''could not fetch all endpointslices for service ns/web during health check'') \<and>
   endpoints (snd (AddEndpointSlice sliceA ((trackingChecker okServer cacheFailing)\<lparr>endpoints := [web \<mapsto> 2]\<rparr>)))
     = [web \<mapsto> 2] \<and>
   fst (DeleteEndpointSlice sliceA ((trackingChecker okServer cacheFailing)\<lparr>endpoints := [web \<mapsto> 2]\<rparr>)) =
     Some (Errorf ''could not fetch all endpointslices for service ns/web during health check'') \<and>
   endpoints (snd (DeleteEndpointSlice sliceA ((trackingChecker okServer cacheFailing)\<lparr>endpoints := [web \<mapsto> 2]\<rparr>)))
     = [web \<mapsto> 2]"
  using fetch_failure_leaves_tables [where old = "mkService ServiceExternalTrafficPolicyTypeCluster 30000"
          and new = "mkService ServiceExternalTrafficPolicyTypeLocal 30000"
          and l = "(trackingChecker okServer cacheFailing)\<lparr>endpoints := [web \<mapsto> 2]\<rparr>"
          and err = "''cache not synced''" and epSlice = sliceA and name = web]
  by (simp add: object_defs resolve_defs NamespacedName_String_def AddService_def step_defs Let_def append_err_def)

subsection \<open>The mutex\<close>

text \<open>
  C9, as stated: every public operation takes the mutex once and holds it for its whole
  read-modify-write-and-push sequence. \<open>UpdateService\<close> does not: on a Cluster-to-Local
  transition it takes the mutex inside \<open>AddService\<close>, releases it, fetches the slices
  with the mutex free, and takes it a second time to write and push the endpoints table.
\<close>

theorem UpdateService_two_critical_sections:
  "events_of (UpdateService (mkService ServiceExternalTrafficPolicyTypeCluster 30000)
                (mkService ServiceExternalTrafficPolicyTypeLocal 30000))
             (newChecker okServer (cacheReturning [sliceA, sliceB])) =
     [Lock, ServicesWrite web 30000, CallSyncServices [web \<mapsto> 30000], Unlock,
      CallGetEndpointSlices ''ns'' ''web'',
      Lock, EndpointsWrite web 2, CallSyncEndpoints [web \<mapsto> 2], Unlock] \<and>
   \<not> under_one_lock (events_of (UpdateService (mkService ServiceExternalTrafficPolicyTypeCluster 30000)
                (mkService ServiceExternalTrafficPolicyTypeLocal 30000))
             (newChecker okServer (cacheReturning [sliceA, sliceB])))"
proof -
  have ev: "events_of (UpdateService (mkService ServiceExternalTrafficPolicyTypeCluster 30000)
                (mkService ServiceExternalTrafficPolicyTypeLocal 30000))
             (newChecker okServer (cacheReturning [sliceA, sliceB])) =
     [Lock, ServicesWrite web 30000, CallSyncServices [web \<mapsto> 30000], Unlock,
      CallGetEndpointSlices ''ns'' ''web'',
      Lock, EndpointsWrite web 2, CallSyncEndpoints [web \<mapsto> 2], Unlock]"
    by (simp add: events_of_def UpdateService_def AddService_def step_defs object_defs count_defs
          Let_def append_err_def NewAggregate_def)
  show ?thesis
    unfolding ev by (simp add: under_one_lock_def)
qed

lemma under_one_lock_section:
  "Lock \<notin> set mid \<Longrightarrow> Unlock \<notin> set mid \<Longrightarrow> under_one_lock (Lock # mid @ [Unlock])"
  by (simp add: under_one_lock_def)

lemma AddService_lock:
  "snd (AddService svc l) = l \<or> under_one_lock (events_of (AddService svc) l)"
  by (simp add: events_of_AddService AddService_events_def under_one_lock_def AddService_def)

lemma DeleteService_lock:
  "snd (DeleteService svc l) = l \<or> under_one_lock (events_of (DeleteService svc) l)"
  by (simp add: events_of_def under_one_lock_def DeleteService_def step_defs Let_def)

lemma SyncEndPointSlices_events:
  "\<exists>mid. trace (snd (SyncEndPointSlices epSlice l)) = trace l @ mid \<and> Lock \<notin> set mid \<and> Unlock \<notin> set mid"
  by (simp add: SyncEndPointSlices_def step_defs Let_def split: sum.splits)

lemma DeleteEndpointSlice_lock:
  "under_one_lock (events_of (DeleteEndpointSlice epSlice) l)"
proof -
  obtain mid where m: "trace (snd (SyncEndPointSlices epSlice (mutex_Lock l))) = trace (mutex_Lock l) @ mid"
    "Lock \<notin> set mid" "Unlock \<notin> set mid"
    using SyncEndPointSlices_events [of epSlice "mutex_Lock l"] by blast
  have "events_of (DeleteEndpointSlice epSlice) l = Lock # mid @ [Unlock]"
    using m(1) by (simp add: events_of_def DeleteEndpointSlice_def step_defs Let_def case_prod_beta)
  then show ?thesis
    using m(2,3) by (simp add: under_one_lock_section)
qed

lemma AddEndpointSlice_lock:
  "snd (AddEndpointSlice epSlice l) = l \<or> under_one_lock (events_of (AddEndpointSlice epSlice) l)"
proof (cases "serviceNamespacedNameFromEndpointSlice epSlice")
  case (Inl err)
  then show ?thesis by (simp add: AddEndpointSlice_def)
next
  case (Inr name)
  let ?l1 = "snd (services_exists name (mutex_Lock l))"
  obtain mid where m: "trace (snd (SyncEndPointSlices epSlice ?l1)) = trace ?l1 @ mid"
    "Lock \<notin> set mid" "Unlock \<notin> set mid"
    using SyncEndPointSlices_events [of epSlice ?l1] by blast
  have "events_of (AddEndpointSlice epSlice) l =
          Lock # (if services l name \<noteq> None then ServicesRead name # mid else [ServicesRead name]) @ [Unlock]"
    using m(1) Inr by (simp add: events_of_def AddEndpointSlice_def step_defs Let_def case_prod_beta)
  then show ?thesis
    using m(2,3) by (simp add: under_one_lock_def)
qed

lemma UpdateEndpointSlice_lock:
  "snd (UpdateEndpointSlice oldEpSlice newEpSlice l) = l \<or>
   under_one_lock (events_of (UpdateEndpointSlice oldEpSlice newEpSlice) l)"
proof (cases "serviceNamespacedNameFromEndpointSlice newEpSlice")
  case (Inl err)
  then show ?thesis by (simp add: UpdateEndpointSlice_def)
next
  case (Inr name)
  let ?l1 = "snd (services_exists name (mutex_Lock l))"
  obtain mid where m: "trace (snd (SyncEndPointSlices newEpSlice ?l1)) = trace ?l1 @ mid"
    "Lock \<notin> set mid" "Unlock \<notin> set mid"
    using SyncEndPointSlices_events [of newEpSlice ?l1] by blast
  have "events_of (UpdateEndpointSlice oldEpSlice newEpSlice) l =
          Lock # (if services l name \<noteq> None then ServicesRead name # mid else [ServicesRead name]) @ [Unlock]"
    using m(1) Inr by (simp add: events_of_def UpdateEndpointSlice_def step_defs Let_def case_prod_beta)
  then show ?thesis
    using m(2,3) by (simp add: under_one_lock_def)
qed

text \<open>
  C9, amended: \<open>AddService\<close>, \<open>DeleteService\<close>, \<open>AddEndpointSlice\<close> and
  \<open>UpdateEndpointSlice\<close> either leave the synchronizer untouched (a service without a
  health-check port, a slice without a service name) or do all their table reads, table
  writes, fetches and pushes inside one continuous critical section; \<open>DeleteEndpointSlice\<close>
  always does the latter. \<open>UpdateService\<close> takes no mutex of its own around the whole
  update: on a Cluster-to-Local transition its events are those of \<open>AddService\<close>, then
  the fetch outside any critical section, then, if the fetch succeeded, a second critical
  section with the endpoints write and push; on a Local-to-Cluster transition they are the
  events of \<open>DeleteService\<close>; on any other update nothing happens.
\<close>

theorem lock_discipline:
  "(snd (AddService svc l) = l \<or> under_one_lock (events_of (AddService svc) l)) \<and>
   (snd (DeleteService svc l) = l \<or> under_one_lock (events_of (DeleteService svc) l)) \<and>
   (snd (AddEndpointSlice epSlice l) = l \<or> under_one_lock (events_of (AddEndpointSlice epSlice) l)) \<and>
   (snd (UpdateEndpointSlice oldEpSlice epSlice l) = l \<or>
      under_one_lock (events_of (UpdateEndpointSlice oldEpSlice epSlice) l)) \<and>
   under_one_lock (events_of (DeleteEndpointSlice epSlice) l) \<and>
   (ExternalTrafficPolicy old = ServiceExternalTrafficPolicyTypeCluster \<and>
    ExternalTrafficPolicy new = ServiceExternalTrafficPolicyTypeLocal \<longrightarrow>
      events_of (UpdateService old new) l =
        events_of (AddService new) l @
        CallGetEndpointSlices (svc_Namespace new) (svc_Name new) #
        (case GetEndpointSlices (watchFactory l) (svc_Namespace new) (svc_Name new) of
           Inl err \<Rightarrow> []
         | Inr epSlices \<Rightarrow>
             [Lock,
              EndpointsWrite (NamespacedName (svc_Namespace new) (svc_Name new))
                (CountLocalReadyEndpointAddresses l epSlices),
              CallSyncEndpoints ((endpoints l)(NamespacedName (svc_Namespace new) (svc_Name new) \<mapsto>
                                   CountLocalReadyEndpointAddresses l epSlices)),
              Unlock])) \<and>
   (ExternalTrafficPolicy old = ServiceExternalTrafficPolicyTypeLocal \<and>
    ExternalTrafficPolicy new = ServiceExternalTrafficPolicyTypeCluster \<longrightarrow>
      events_of (UpdateService old new) l = events_of (DeleteService old) l) \<and>
   (\<not> (ExternalTrafficPolicy old = ServiceExternalTrafficPolicyTypeCluster \<and>
        ExternalTrafficPolicy new = ServiceExternalTrafficPolicyTypeLocal) \<and>
    \<not> (ExternalTrafficPolicy old = ServiceExternalTrafficPolicyTypeLocal \<and>
        ExternalTrafficPolicy new = ServiceExternalTrafficPolicyTypeCluster) \<longrightarrow>
      UpdateService old new l = (None, l))"
proof (intro conjI impI)
  show "snd (AddService svc l) = l \<or> under_one_lock (events_of (AddService svc) l)"
    by (rule AddService_lock)
  show "snd (DeleteService svc l) = l \<or> under_one_lock (events_of (DeleteService svc) l)"
    by (rule DeleteService_lock)
  show "snd (AddEndpointSlice epSlice l) = l \<or> under_one_lock (events_of (AddEndpointSlice epSlice) l)"
    by (rule AddEndpointSlice_lock)
  show "snd (UpdateEndpointSlice oldEpSlice epSlice l) = l \<or>
      under_one_lock (events_of (UpdateEndpointSlice oldEpSlice epSlice) l)"
    by (rule UpdateEndpointSlice_lock)
  show "under_one_lock (events_of (DeleteEndpointSlice epSlice) l)"
    by (rule DeleteEndpointSlice_lock)
next
  assume "ExternalTrafficPolicy old = ServiceExternalTrafficPolicyTypeCluster \<and>
    ExternalTrafficPolicy new = ServiceExternalTrafficPolicyTypeLocal"
  then show "events_of (UpdateService old new) l =
        events_of (AddService new) l @
        CallGetEndpointSlices (svc_Namespace new) (svc_Name new) #
        (case GetEndpointSlices (watchFactory l) (svc_Namespace new) (svc_Name new) of
           Inl err \<Rightarrow> []
         | Inr epSlices \<Rightarrow>
             [Lock,
              EndpointsWrite (NamespacedName (svc_Namespace new) (svc_Name new))
                (CountLocalReadyEndpointAddresses l epSlices),
              CallSyncEndpoints ((endpoints l)(NamespacedName (svc_Namespace new) (svc_Name new) \<mapsto>
                                   CountLocalReadyEndpointAddresses l epSlices)),
              Unlock])"
    by (simp add: UpdateService_Cluster_to_Local_events events_of_AddService)
next
  assume "ExternalTrafficPolicy old = ServiceExternalTrafficPolicyTypeLocal \<and>
    ExternalTrafficPolicy new = ServiceExternalTrafficPolicyTypeCluster"
  then show "events_of (UpdateService old new) l = events_of (DeleteService old) l"
    by (simp add: events_of_def UpdateService_Local_to_Cluster)
next
  assume "\<not> (ExternalTrafficPolicy old = ServiceExternalTrafficPolicyTypeCluster \<and>
        ExternalTrafficPolicy new = ServiceExternalTrafficPolicyTypeLocal) \<and>
    \<not> (ExternalTrafficPolicy old = ServiceExternalTrafficPolicyTypeLocal \<and>
        ExternalTrafficPolicy new = ServiceExternalTrafficPolicyTypeCluster)"
  then show "UpdateService old new l = (None, l)"
    by (simp add: UpdateService_otherwise)
qed

theorem lock_discipline_witness:
  "ExternalTrafficPolicy (mkService ServiceExternalTrafficPolicyTypeCluster 30000) = ServiceExternalTrafficPolicyTypeCluster \<and>
   ExternalTrafficPolicy (mkService ServiceExternalTrafficPolicyTypeLocal 30000) = ServiceExternalTrafficPolicyTypeLocal \<and>
   events_of (UpdateService (mkService ServiceExternalTrafficPolicyTypeCluster 30000)
                (mkService ServiceExternalTrafficPolicyTypeLocal 30000)) (newChecker okServer cacheFailing) =
     [Lock, ServicesWrite web 30000, CallSyncServices [web \<mapsto> 30000], Unlock,
      CallGetEndpointSlices ''ns'' ''web''] \<and>
   events_of (UpdateService (mkService ServiceExternalTrafficPolicyTypeLocal 30000)
                (mkService ServiceExternalTrafficPolicyTypeCluster 30000)) (trackingChecker okServer cacheFailing) =
     [Lock, ServicesDelete web, EndpointsDelete web, CallSyncServices Map.empty, Unlock] \<and>
   under_one_lock (events_of (UpdateService (mkService ServiceExternalTrafficPolicyTypeLocal 30000)
                (mkService ServiceExternalTrafficPolicyTypeCluster 30000)) (trackingChecker okServer cacheFailing)) \<and>
   UpdateService (mkService ServiceExternalTrafficPolicyTypeLocal 30000)
                (mkService ServiceExternalTrafficPolicyTypeLocal 30001) (trackingChecker okServer cacheFailing) =
     (None, trackingChecker okServer cacheFailing)"
  using lock_discipline [where old = "mkService ServiceExternalTrafficPolicyTypeCluster 30000"
              and new = "mkService ServiceExternalTrafficPolicyTypeLocal 30000"
              and l = "newChecker okServer cacheFailing"]
        lock_discipline [where old = "mkService ServiceExternalTrafficPolicyTypeLocal 30000"
              and new = "mkService ServiceExternalTrafficPolicyTypeCluster 30000"
              and svc = "mkService ServiceExternalTrafficPolicyTypeLocal 30000"
              and l = "trackingChecker okServer cacheFailing"]
        lock_discipline [where old = "mkService ServiceExternalTrafficPolicyTypeLocal 30000"
              and new = "mkService ServiceExternalTrafficPolicyTypeLocal 30001"
              and l = "trackingChecker okServer cacheFailing"]
  by (simp add: object_defs events_of_def AddService_def DeleteService_def step_defs Let_def under_one_lock_def)

subsection \<open>Operations that keep the two tables consistent\<close>

text \<open>
  Apart from \<open>DeleteEndpointSlice\<close>, and from \<open>UpdateService\<close> on a Cluster-to-Local
  transition of a service without a health-check port, every operation keeps every key of
  the endpoints table a key of the services table.
\<close>

lemma AddService_keeps_consistent:
  "tables_consistent l \<Longrightarrow> tables_consistent (snd (AddService svc l))"
  by (auto simp add: tables_consistent_def AddService_def step_defs Let_def)

lemma DeleteService_keeps_consistent:
  "tables_consistent l \<Longrightarrow> tables_consistent (snd (DeleteService svc l))"
  by (auto simp add: tables_consistent_def DeleteService_def step_defs Let_def)

lemma SyncEndPointSlices_keeps_consistent:
  assumes "tables_consistent l"
      and "serviceNamespacedNameFromEndpointSlice epSlice = Inr name" and "services l name \<noteq> None"
  shows "tables_consistent (snd (SyncEndPointSlices epSlice l))"
  using assms
  by (auto simp add: tables_consistent_def SyncEndPointSlices_def step_defs Let_def split: sum.splits)

lemma AddEndpointSlice_keeps_consistent:
  assumes "tables_consistent l"
  shows "tables_consistent (snd (AddEndpointSlice epSlice l))"
proof (cases "serviceNamespacedNameFromEndpointSlice epSlice")
  case (Inl err)
  then show ?thesis using assms by (simp add: AddEndpointSlice_def)
next
  case (Inr name)
  show ?thesis
  proof (cases "services l name")
    case None
    then show ?thesis
      using assms Inr by (simp add: AddEndpointSlice_def step_defs tables_consistent_def)
  next
    case (Some port)
    let ?l1 = "l\<lparr>trace := trace l @ [Lock, ServicesRead name]\<rparr>"
    have "tables_consistent (snd (SyncEndPointSlices epSlice ?l1))"
      using assms Inr Some by (intro SyncEndPointSlices_keeps_consistent [where name = name])
        (simp_all add: tables_consistent_def)
    then show ?thesis
      using Inr Some by (simp add: AddEndpointSlice_def step_defs case_prod_beta tables_consistent_def)
  qed
qed

lemma UpdateEndpointSlice_keeps_consistent:
  assumes "tables_consistent l"
  shows "tables_consistent (snd (UpdateEndpointSlice oldEpSlice newEpSlice l))"
proof (cases "serviceNamespacedNameFromEndpointSlice newEpSlice")
  case (Inl err)
  then show ?thesis using assms by (simp add: UpdateEndpointSlice_def)
next
  case (Inr name)
  show ?thesis
  proof (cases "services l name")
    case None
    then show ?thesis
      using assms Inr by (simp add: UpdateEndpointSlice_def step_defs tables_consistent_def)
  next
    case (Some port)
    let ?l1 = "l\<lparr>trace := trace l @ [Lock, ServicesRead name]\<rparr>"
    have "tables_consistent (snd (SyncEndPointSlices newEpSlice ?l1))"
      using assms Inr Some by (intro SyncEndPointSlices_keeps_consistent [where name = name])
        (simp_all add: tables_consistent_def)
    then show ?thesis
      using Inr Some by (simp add: UpdateEndpointSlice_def step_defs case_prod_beta tables_consistent_def)
  qed
qed

lemma UpdateService_keeps_consistent:
  assumes "tables_consistent l"
      and "HealthCheckNodePort new \<noteq> 0 \<or>
           \<not> (ExternalTrafficPolicy old = ServiceExternalTrafficPolicyTypeCluster \<and>
              ExternalTrafficPolicy new = ServiceExternalTrafficPolicyTypeLocal)"
  shows "tables_consistent (snd (UpdateService old new l))"
proof (cases "ExternalTrafficPolicy old = ServiceExternalTrafficPolicyTypeCluster \<and>
              ExternalTrafficPolicy new = ServiceExternalTrafficPolicyTypeLocal")
  case True
  then have p: "HealthCheckNodePort new \<noteq> 0" using assms(2) by blast
  from True have c: "ExternalTrafficPolicy old = ServiceExternalTrafficPolicyTypeCluster"
    and d: "ExternalTrafficPolicy new = ServiceExternalTrafficPolicyTypeLocal" by simp_all
  show ?thesis
    using assms(1) p
    by (auto simp add: UpdateService_Cluster_to_Local [OF c d] Let_def emit_def tables_consistent_def
          AddService_def step_defs split: sum.splits)
next
  case False
  show ?thesis
  proof (cases "ExternalTrafficPolicy old = ServiceExternalTrafficPolicyTypeLocal \<and>
                ExternalTrafficPolicy new = ServiceExternalTrafficPolicyTypeCluster")
    case True
    then show ?thesis
      using DeleteService_keeps_consistent [OF assms(1), of old]
      by (simp add: UpdateService_Local_to_Cluster)
  next
    case no: False
    show ?thesis
      using assms(1) by (simp add: UpdateService_otherwise [OF False no])
  qed
qed

section \<open>Properties of the Request Server's validation\<close>

text \<open>
  C8, as stated: every request without the arguments key is answered with status 400 and a
  body that begins with "missing CNI_ARGS". The checks short-circuit in their order, so a
  request that also fails an earlier check gets that check's message: without a container
  ID and without arguments, the body is the missing-container-id error.
\<close>

theorem missing_arguments_counterexample:
  "Env requestWithoutContainerIDAndArgs ''CNI_ARGS'' = None \<and>
   handleCNIRequest noBytesHandler requestWithoutContainerIDAndArgs =
     \<lparr>status = 400, body = ''missing CNI_CONTAINERID''\<rparr> \<and>
   \<not> prefix ''missing CNI_ARGS'' (body (handleCNIRequest noBytesHandler requestWithoutContainerIDAndArgs))"
  by (simp add: handleCNIRequest_def cniRequestToPodRequest_def requestCommand_def requestWithoutContainerIDAndArgs_def
        parseCommand_def message_defs)

text \<open>
  Likewise a request without network namespace and without arguments is answered with the
  message of the earlier check, "missing CNI_NETNS".
\<close>

lemma missing_netns_and_arguments:
  "Env \<lparr>Env = [''CNI_COMMAND'' \<mapsto> ''ADD'', ''CNI_CONTAINERID'' \<mapsto> ''adsfadsfasfdasdfasf''], Config = []\<rparr>
     ''CNI_ARGS'' = None \<and>
   handleCNIRequest noBytesHandler
     \<lparr>Env = [''CNI_COMMAND'' \<mapsto> ''ADD'', ''CNI_CONTAINERID'' \<mapsto> ''adsfadsfasfdasdfasf''], Config = []\<rparr>
     = \<lparr>status = 400, body = ''missing CNI_NETNS''\<rparr>"
  by (simp add: handleCNIRequest_def cniRequestToPodRequest_def requestCommand_def parseCommand_def message_defs)

text \<open>
  C8, amended: every request that misses the command, the arguments or (for a command
  that is not Delete) the network namespace is answered with status 400, and the body
  begins with the message of the first failed check in the order command, container ID,
  network namespace, arguments. A request whose command key is missing or unrecognized is answered with 400 and a body
  beginning with "unexpected or missing CNI_COMMAND"; a request with a recognized command
  whose container-ID key is missing or empty, with 400 and the missing-container-id error;
  a request with a recognized command other than Delete and a non-empty container ID but
  no network-namespace key, with 400 and "missing CNI_NETNS"; a request that passes the
  command, container-ID and network-namespace checks but has no arguments key, with 400
  and "missing CNI_ARGS".
\<close>

theorem validation_failure_prefixes:
  "(requestCommand cr = None \<longrightarrow>
      status (handleCNIRequest handler cr) = 400 \<and>
      prefix ''unexpected or missing CNI_COMMAND'' (body (handleCNIRequest handler cr))) \<and>
   (requestCommand cr = Some cmd \<and>
    (Env cr ''CNI_CONTAINERID'' = None \<or> Env cr ''CNI_CONTAINERID'' = Some []) \<longrightarrow>
      status (handleCNIRequest handler cr) = 400 \<and>
      prefix missingContainerID (body (handleCNIRequest handler cr))) \<and>
   (requestCommand cr = Some cmd \<and> cmd \<noteq> CNIDel \<and> Env cr ''CNI_CONTAINERID'' = Some sandbox \<and> sandbox \<noteq> [] \<and>
    Env cr ''CNI_NETNS'' = None \<longrightarrow>
      status (handleCNIRequest handler cr) = 400 \<and>
      prefix ''missing CNI_NETNS'' (body (handleCNIRequest handler cr))) \<and>
   (requestCommand cr = Some cmd \<and> Env cr ''CNI_CONTAINERID'' = Some sandbox \<and> sandbox \<noteq> [] \<and>
    (cmd = CNIDel \<or> Env cr ''CNI_NETNS'' \<noteq> None) \<and> Env cr ''CNI_ARGS'' = None \<longrightarrow>
      status (handleCNIRequest handler cr) = 400 \<and>
      prefix ''missing CNI_ARGS'' (body (handleCNIRequest handler cr))) \<and>
   (requestCommand cr = None \<or> Env cr ''CNI_ARGS'' = None \<or>
    (requestCommand cr \<noteq> Some CNIDel \<and> Env cr ''CNI_NETNS'' = None) \<longrightarrow>
      status (handleCNIRequest handler cr) = 400)"
  by (auto simp add: handleCNIRequest_def cniRequestToPodRequest_def gatherCNIArgs_def message_defs
        split: option.splits sum.splits)

text \<open>The three failing requests of the test, and the request without container ID and arguments.\<close>

theorem validation_failure_prefixes_witness:
  "requestCommand requestWithoutCommand = None \<and>
   handleCNIRequest noBytesHandler requestWithoutCommand = \<lparr>status = 400, body = ''unexpected or missing CNI_COMMAND''\<rparr> \<and>
   requestCommand requestWithoutContainerIDAndArgs = Some CNIAdd \<and>
   Env requestWithoutContainerIDAndArgs ''CNI_CONTAINERID'' = None \<and>
   handleCNIRequest noBytesHandler requestWithoutContainerIDAndArgs = \<lparr>status = 400, body = missingContainerID\<rparr> \<and>
   requestCommand requestWithoutNetns = Some CNIAdd \<and> CNIAdd \<noteq> CNIDel \<and>
   Env requestWithoutNetns ''CNI_CONTAINERID'' = Some ''adsfadsfasfdasdfasf'' \<and> ''adsfadsfasfdasdfasf'' \<noteq> [] \<and>
   Env requestWithoutNetns ''CNI_NETNS'' = None \<and>
   handleCNIRequest noBytesHandler requestWithoutNetns = \<lparr>status = 400, body = ''missing CNI_NETNS''\<rparr> \<and>
   requestCommand requestWithoutArgs = Some CNIAdd \<and>
   Env requestWithoutArgs ''CNI_CONTAINERID'' = Some ''adsfadsfasfdasdfasf'' \<and>
   Env requestWithoutArgs ''CNI_NETNS'' \<noteq> None \<and>
   Env requestWithoutArgs ''CNI_ARGS'' = None \<and>
   handleCNIRequest noBytesHandler requestWithoutArgs = \<lparr>status = 400, body = ''missing CNI_ARGS''\<rparr>"
  using validation_failure_prefixes [where cr = requestWithoutCommand and handler = noBytesHandler]
        validation_failure_prefixes [where cr = requestWithoutContainerIDAndArgs and cmd = CNIAdd and handler = noBytesHandler]
        validation_failure_prefixes [where cr = requestWithoutNetns and cmd = CNIAdd and sandbox = "''adsfadsfasfdasdfasf''"
              and handler = noBytesHandler]
        validation_failure_prefixes [where cr = requestWithoutArgs and cmd = CNIAdd and sandbox = "''adsfadsfasfdasdfasf''"
              and handler = noBytesHandler]
  by (simp add: handleCNIRequest_def cniRequestToPodRequest_def requestCommand_def gatherCNIArgs_def
        requestWithoutCommand_def requestWithoutNetns_def requestWithoutArgs_def
        requestWithoutContainerIDAndArgs_def parseCommand_def message_defs)

text \<open>A well-formed Delete request needs no network namespace and is answered with 200.\<close>

lemma well_formed_request_accepted:
  "handleCNIRequest noBytesHandler
     \<lparr>Env = [''CNI_COMMAND'' \<mapsto> ''DEL'', ''CNI_CONTAINERID'' \<mapsto> ''adsfadsfasfdasdfasf'',
             ''CNI_ARGS'' \<mapsto> ''K8S_POD_NAMESPACE=awesome-namespace;K8S_POD_NAME=awesome-name''],
      Config = []\<rparr> = \<lparr>status = 200, body = []\<rparr>"
  by (simp add: handleCNIRequest_def cniRequestToPodRequest_def requestCommand_def gatherCNIArgs_def
        parseCommand_def message_defs parsePair_def noBytesHandler_def map_index_def)

end
